theory Spec2Isabelle
  imports Main
begin

section \<open>Values, errors and collaborators\<close>

text \<open>
  JavaScript truthiness of a value of type \<open>string | undefined\<close> (or \<open>string | null\<close>):
  \<open>undefined\<close>, \<open>null\<close> and the empty string are falsy. The source tests the refresh
  token, the account id, the passcode, \<open>errorCode\<close> and \<open>next_url\<close> this way.
\<close>

definition truthy :: "string option \<Rightarrow> bool" where
  "truthy v = (case v of None \<Rightarrow> False | Some str \<Rightarrow> str \<noteq> [])"

text \<open>\<open>a || b\<close> on two optional strings.\<close>

definition js_or :: "string option \<Rightarrow> string option \<Rightarrow> string option" where
  "js_or a b = (if truthy a then a else b)"

text \<open>
  Every \<open>throw\<close> of \<open>cloud-account.ts\<close> and every rejection of a collaborator is a value:
  \<^item> \<open>NotLoggedIn\<close>: \<open>Error('You are not logged into IBM Cloud')\<close>;
  \<^item> \<open>NoAccountSelected\<close>: \<open>Error('You have not selected an IBM Cloud account to use')\<close>;
  \<^item> \<open>ProviderError code detail\<close>: \<open>Error(`${errorCode}: ${errorDetails || errorMessage}`)\<close>;
  \<^item> \<open>HttpStatusError n\<close>: \<open>Error(`IBM Cloud IAM token endpoint returned HTTP ${statusCode}`)\<close>;
  \<^item> \<open>EmptyError\<close>: the \<open>throw new Error()\<close> of \<open>refreshTokens\<close>;
  \<^item> \<open>TransportError\<close>: \<open>rp.get\<close> or \<open>rp.post\<close> rejects;
  \<^item> \<open>StorageError\<close>: \<open>Memento.update\<close> or a \<open>SecureStore\<close> operation rejects;
  \<^item> \<open>InvalidURL\<close>: \<open>new URL(...)\<close> throws;
  \<^item> \<open>CallbackError\<close>: a callback of the host rejects.
\<close>

datatype error =
    NotLoggedIn
  | NoAccountSelected
  | ProviderError string "string option"
  | HttpStatusError nat
  | EmptyError
  | TransportError
  | StorageError
  | InvalidURL
  | CallbackError

datatype 'a promise = Rejected | Resolved 'a

text \<open>The forms posted to the token endpoint, one constructor per object literal of the source.\<close>

datatype form =
    PasswordForm string string
  | ApikeyForm string
  | PasscodeForm string
  | RefreshForm "string option" string

fun grant_type :: "form \<Rightarrow> string" where
  "grant_type (PasswordForm username password) = ''password''"
| "grant_type (ApikeyForm apikey) = ''urn:ibm:params:oauth:grant-type:apikey''"
| "grant_type (PasscodeForm passcode) = ''urn:ibm:params:oauth:grant-type:passcode''"
| "grant_type (RefreshForm account refresh_token) = ''refresh_token''"

record openid_configuration =
  token_endpoint :: string
  passcode_endpoint :: string

record token_body =
  errorCode :: "string option"
  errorDetails :: "string option"
  errorMessage :: "string option"
  access_token :: "string option"
  expiration_body :: int
  refresh_token :: string

record token_response =
  statusCode :: nat
  body :: token_body

record resource =
  metadata_guid :: string
  entity_name :: string
  entity_owner_userid :: string

record accounts_response =
  resources :: "resource list"
  next_url :: "string option"

record account =
  guid :: string
  name :: string
  email :: string

text \<open>
  The calls the session makes to its collaborators, in the order they are made: writes to
  the \<open>vscode.Memento\<close>, the operations of the \<open>SecureStore\<close>, the HTTP requests and the
  two callbacks of the host. A call is recorded when it is made, whether it then resolves
  or rejects.
\<close>

datatype call =
    MementoUpdate string "string option"
  | GetPassword string string
  | SetPassword string string string
  | DeletePassword string string
  | HttpGet string "string option"
  | HttpPost string form
  | PasscodeCallback string
  | AccountCallback "account list"

text \<open>
  The session: the two private fields of \<open>CloudAccount\<close>, the two stores behind
  \<open>CloudAccountStore\<close> (the \<open>vscode.Memento\<close> of the host and the \<open>SecureStore\<close>, keyed by
  service and account), the number of \<open>'changed'\<close> events emitted so far, and the calls made
  to the collaborators so far.
\<close>

record session =
  accessToken :: "string option"
  expiration :: int
  globalState :: "string \<rightharpoonup> string"
  secureStore :: "string \<times> string \<rightharpoonup> string"
  emitted :: nat
  trace :: "call list"

text \<open>
  The collaborators. Every asynchronous call is answered by an oracle that is given the
  number of calls made before it, so that two calls with the same arguments may be
  answered differently: \<open>storage_rejects n\<close> says that the storage operation made after
  \<open>n\<close> earlier calls rejects; \<open>rp_get_openid\<close>, \<open>rp_post\<close> and \<open>rp_get_accounts\<close> answer the
  HTTP requests (\<open>Rejected\<close> is a transport failure and, for \<open>rp.get\<close>, a status other than
  2xx; \<open>rp.post\<close> is called with \<open>simple: false\<close> and resolves with any status).
  \<open>new_URL\<close> is the URL parser (the normalised \<open>href\<close>, or \<open>None\<close> where it throws), and
  \<open>getTime\<close> is the clock in milliseconds, read once, in \<open>checkTokens\<close>.
\<close>

record env =
  getTime :: int
  storage_rejects :: "nat \<Rightarrow> bool"
  new_URL :: "string \<Rightarrow> string option"
  rp_get_openid :: "nat \<Rightarrow> string \<Rightarrow> openid_configuration promise"
  rp_post :: "nat \<Rightarrow> string \<Rightarrow> form \<Rightarrow> token_response promise"
  rp_get_accounts :: "nat \<Rightarrow> string \<Rightarrow> string option \<Rightarrow> accounts_response promise"

section \<open>Asynchronous code as state passing with errors\<close>

text \<open>
  An \<open>async\<close> method is a function from the session to a result, which is an error
  (\<open>Inl\<close>) or a value (\<open>Inr\<close>), and the session it leaves. A method runs to its end: the
  calls of other methods that the event loop could interleave at an \<open>await\<close> (the source
  takes no lock) are outside this model.
\<close>

type_synonym 'a cmd = "session \<Rightarrow> (error + 'a) \<times> session"

definition return :: "'a \<Rightarrow> 'a cmd" where
  "return x s = (Inr x, s)"

definition throw :: "error \<Rightarrow> 'a cmd" where
  "throw e s = (Inl e, s)"

text \<open>\<open>const x = await m; f x\<close>: an error of \<open>m\<close> skips the rest.\<close>

definition await :: "'a cmd \<Rightarrow> ('a \<Rightarrow> 'b cmd) \<Rightarrow> 'b cmd" where
  "await m f s = (case m s of (Inl e, s') \<Rightarrow> (Inl e, s') | (Inr x, s') \<Rightarrow> f x s')"

text \<open>\<open>try { m } finally { fin }\<close> where \<open>fin\<close> cannot throw.\<close>

definition try_finally :: "'a cmd \<Rightarrow> (session \<Rightarrow> session) \<Rightarrow> 'a cmd" where
  "try_finally m fin s = (case m s of (r, s') \<Rightarrow> (r, fin s'))"

text \<open>\<open>try { m } catch { h }\<close>: the handler does not look at the error.\<close>

definition try_catch :: "'a cmd \<Rightarrow> 'a cmd \<Rightarrow> 'a cmd" where
  "try_catch m h s = (case m s of (Inl e, s') \<Rightarrow> h s' | (Inr x, s') \<Rightarrow> (Inr x, s'))"

definition ticks :: "session \<Rightarrow> nat" where
  "ticks s = length (trace s)"

definition called :: "call \<Rightarrow> session \<Rightarrow> session" where
  "called c s = s\<lparr>trace := trace s @ [c]\<rparr>"

text \<open>\<open>this.emit('changed')\<close>.\<close>

definition emit_changed :: "session \<Rightarrow> session" where
  "emit_changed s = s\<lparr>emitted := Suc (emitted s)\<rparr>"

section \<open>\<open>cloud-account-store.ts\<close>\<close>

definition ACCOUNT_KEY :: string where
  "ACCOUNT_KEY = ''ibmcloud-account-guid''"

definition EMAIL_KEY :: string where
  "EMAIL_KEY = ''ibmcloud-account-email''"

definition SERVICE :: string where
  "SERVICE = ''VS Code IBM Cloud Account''"

definition REFRESH_TOKEN_ACCOUNT :: string where
  "REFRESH_TOKEN_ACCOUNT = ''Refresh Token''"

text \<open>\<open>globalState.get(key, undefined)\<close> is synchronous and reads the host's cache.\<close>

definition memento_get :: "string \<Rightarrow> (string option) cmd" where
  "memento_get key s = (Inr (globalState s key), s)"

text \<open>\<open>globalState.update(key, value)\<close>; the value \<open>undefined\<close> removes the key.\<close>

definition memento_update :: "env \<Rightarrow> string \<Rightarrow> string option \<Rightarrow> unit cmd" where
  "memento_update env key v s =
     (if storage_rejects env (ticks s) then (Inl StorageError, called (MementoUpdate key v) s)
      else (Inr (), called (MementoUpdate key v) (s\<lparr>globalState := (globalState s)(key := v)\<rparr>)))"

text \<open>
  The secret store (\<open>keytar\<close> in \<open>src/cloud-account-store.ts\<close>, the \<open>SecureStore\<close> given to
  the constructor in the later version of that file) is a collaborator of
  \<open>CloudAccountStore\<close>: passwords by service and account, and the oracle of the
  environment says which operations reject. A rejected operation changes nothing.
\<close>

definition getPassword :: "env \<Rightarrow> string \<Rightarrow> string \<Rightarrow> (string option) cmd" where
  "getPassword env service acc s =
     (if storage_rejects env (ticks s) then (Inl StorageError, called (GetPassword service acc) s)
      else (Inr (secureStore s (service, acc)), called (GetPassword service acc) s))"

definition setPassword :: "env \<Rightarrow> string \<Rightarrow> string \<Rightarrow> string \<Rightarrow> unit cmd" where
  "setPassword env service acc password s =
     (if storage_rejects env (ticks s)
      then (Inl StorageError, called (SetPassword service acc password) s)
      else (Inr (), called (SetPassword service acc password)
                      (s\<lparr>secureStore := (secureStore s)((service, acc) \<mapsto> password)\<rparr>)))"

text \<open>
  Deleting a password that is not there resolves, as deleting one that is there does,
  unless the oracle rejects the operation.
\<close>

definition deletePassword :: "env \<Rightarrow> string \<Rightarrow> string \<Rightarrow> unit cmd" where
  "deletePassword env service acc s =
     (if storage_rejects env (ticks s) then (Inl StorageError, called (DeletePassword service acc) s)
      else (Inr (), called (DeletePassword service acc)
                      (s\<lparr>secureStore := (secureStore s)((service, acc) := None)\<rparr>)))"

definition store_getAccount :: "(string option) cmd" where
  "store_getAccount = memento_get ACCOUNT_KEY"

definition store_setAccount :: "env \<Rightarrow> string \<Rightarrow> unit cmd" where
  "store_setAccount env acc = memento_update env ACCOUNT_KEY (Some acc)"

definition store_deleteAccount :: "env \<Rightarrow> unit cmd" where
  "store_deleteAccount env = memento_update env ACCOUNT_KEY None"

definition store_getEmail :: "(string option) cmd" where
  "store_getEmail = memento_get EMAIL_KEY"

definition store_setEmail :: "env \<Rightarrow> string \<Rightarrow> unit cmd" where
  "store_setEmail env e = memento_update env EMAIL_KEY (Some e)"

definition store_deleteEmail :: "env \<Rightarrow> unit cmd" where
  "store_deleteEmail env = memento_update env EMAIL_KEY None"

definition store_getRefreshToken :: "env \<Rightarrow> (string option) cmd" where
  "store_getRefreshToken env = getPassword env SERVICE REFRESH_TOKEN_ACCOUNT"

definition store_setRefreshToken :: "env \<Rightarrow> string \<Rightarrow> unit cmd" where
  "store_setRefreshToken env refreshToken = setPassword env SERVICE REFRESH_TOKEN_ACCOUNT refreshToken"

definition store_deleteRefreshToken :: "env \<Rightarrow> unit cmd" where
  "store_deleteRefreshToken env = deletePassword env SERVICE REFRESH_TOKEN_ACCOUNT"

section \<open>\<open>cloud-account.ts\<close>\<close>

definition ACCOUNTS_URL :: string where
  "ACCOUNTS_URL = ''https://accountmanagement.ng.bluemix.net/coe/v2/accounts''"

definition OPENID_URL :: string where
  "OPENID_URL = ''https://iam.cloud.ibm.com/identity/.well-known/openid-configuration''"

definition URL_new :: "env \<Rightarrow> string \<Rightarrow> string cmd" where
  "URL_new env str = (case new_URL env str of None \<Rightarrow> throw InvalidURL | Some href \<Rightarrow> return href)"

text \<open>
  \<open>/^2/.test('' + response.statusCode)\<close>: the decimal numeral of the status starts with 2.
\<close>

function leading_digit :: "nat \<Rightarrow> nat" where
  "leading_digit n = (if n < 10 then n else leading_digit (n div 10))"
  by pat_completeness auto
termination
  by (relation "measure id") auto

definition starts_with_2 :: "nat \<Rightarrow> bool" where
  "starts_with_2 n = (leading_digit n = 2)"

definition logout :: "env \<Rightarrow> unit cmd" where
  "logout env =
     try_finally
       (await (\<lambda>s. (Inr (), s\<lparr>accessToken := None, expiration := 0\<rparr>)) (\<lambda>_.
        await (store_deleteAccount env) (\<lambda>_.
        await (store_deleteEmail env) (\<lambda>_.
        store_deleteRefreshToken env))))
       emit_changed"

definition loggedIn :: "env \<Rightarrow> bool cmd" where
  "loggedIn env = await (store_getRefreshToken env) (\<lambda>refreshToken. return (truthy refreshToken))"

definition accountSelected :: "bool cmd" where
  "accountSelected = await store_getAccount (\<lambda>acc. return (truthy acc))"

definition getAccount :: "(string option) cmd" where
  "getAccount = store_getAccount"

definition getEmail :: "(string option) cmd" where
  "getEmail = store_getEmail"

definition getOpenIDConfiguration :: "env \<Rightarrow> openid_configuration cmd" where
  "getOpenIDConfiguration env s =
     (case rp_get_openid env (ticks s) OPENID_URL of
        Rejected \<Rightarrow> (Inl TransportError, called (HttpGet OPENID_URL None) s)
      | Resolved conf \<Rightarrow> (Inr conf, called (HttpGet OPENID_URL None) s))"

definition getTokenEndpoint :: "env \<Rightarrow> string cmd" where
  "getTokenEndpoint env =
     await (getOpenIDConfiguration env) (\<lambda>openIDConfiguration.
     URL_new env (token_endpoint openIDConfiguration))"

definition getPasscodeEndpoint :: "env \<Rightarrow> string cmd" where
  "getPasscodeEndpoint env =
     await (getOpenIDConfiguration env) (\<lambda>openIDConfiguration.
     URL_new env (passcode_endpoint openIDConfiguration))"

definition post_token :: "env \<Rightarrow> string \<Rightarrow> form \<Rightarrow> token_response cmd" where
  "post_token env tokenEndpoint frm s =
     (case rp_post env (ticks s) tokenEndpoint frm of
        Rejected \<Rightarrow> (Inl TransportError, called (HttpPost tokenEndpoint frm) s)
      | Resolved response \<Rightarrow> (Inr response, called (HttpPost tokenEndpoint frm) s))"

definition loginCommon :: "env \<Rightarrow> form \<Rightarrow> bool \<Rightarrow> unit cmd" where
  "loginCommon env frm refresh =
     await (getTokenEndpoint env) (\<lambda>tokenEndpoint.
     await (post_token env tokenEndpoint frm) (\<lambda>response.
     if \<not> starts_with_2 (statusCode response) then
       (case errorCode (body response) of
          None \<Rightarrow> throw (HttpStatusError (statusCode response))
        | Some code \<Rightarrow>
            if code \<noteq> [] then
              throw (ProviderError code
                       (js_or (errorDetails (body response)) (errorMessage (body response))))
            else throw (HttpStatusError (statusCode response)))
     else
       await (\<lambda>s. (Inr (), s\<lparr>accessToken := access_token (body response),
                             expiration := expiration_body (body response)\<rparr>)) (\<lambda>_.
       await (if \<not> refresh then
                await (store_deleteAccount env) (\<lambda>_. store_deleteEmail env)
              else return ()) (\<lambda>_.
       store_setRefreshToken env (refresh_token (body response))))))"

text \<open>\<open>Math.round((new Date()).getTime() / 1000)\<close>: the nearest second, halves rounded up.\<close>

definition now :: "env \<Rightarrow> int" where
  "now env = (getTime env + 500) div 1000"

text \<open>The \<open>try\<close> block of \<open>refreshTokens\<close>: the refresh exchange.\<close>

definition refreshExchange :: "env \<Rightarrow> unit cmd" where
  "refreshExchange env =
     await (store_getRefreshToken env) (\<lambda>refreshToken.
     case refreshToken of
       None \<Rightarrow> throw EmptyError
     | Some token \<Rightarrow>
         if token = [] then throw EmptyError
         else
           await store_getAccount (\<lambda>acc.
           loginCommon env (RefreshForm acc token) True))"

definition refreshTokens :: "env \<Rightarrow> unit cmd" where
  "refreshTokens env =
     try_catch (refreshExchange env) (await (logout env) (\<lambda>_. throw NotLoggedIn))"

definition checkTokens :: "env \<Rightarrow> unit cmd" where
  "checkTokens env s =
     (let delta = expiration s - now env
      in if delta < 60 then refreshTokens env s else (Inr (), s))"

definition getAccessToken :: "env \<Rightarrow> bool \<Rightarrow> (string option) cmd" where
  "getAccessToken env accountRequired =
     try_finally
       (await (loggedIn env) (\<lambda>isLoggedIn.
        if \<not> isLoggedIn then throw NotLoggedIn
        else
          await accountSelected (\<lambda>isAccountSelected.
          if accountRequired \<and> \<not> isAccountSelected then throw NoAccountSelected
          else
            await (checkTokens env) (\<lambda>_.
            (\<lambda>s. (Inr (accessToken s), s))))))
       emit_changed"

text \<open>
  \<open>getRefreshToken\<close> ends with \<open>return this.store.getRefreshToken()\<close>, not awaited inside the
  \<open>try\<close>: the read is started, the \<open>finally\<close> block emits, and the method settles as the
  read does. The session left is the same as with the read awaited first.
\<close>

definition getRefreshToken :: "env \<Rightarrow> bool \<Rightarrow> (string option) cmd" where
  "getRefreshToken env accountRequired =
     try_finally
       (await (loggedIn env) (\<lambda>isLoggedIn.
        if \<not> isLoggedIn then throw NotLoggedIn
        else
          await accountSelected (\<lambda>isAccountSelected.
          if accountRequired \<and> \<not> isAccountSelected then throw NoAccountSelected
          else
            await (checkTokens env) (\<lambda>_.
            store_getRefreshToken env))))
       emit_changed"

definition loginWithUsernameAndPassword :: "env \<Rightarrow> string \<Rightarrow> string \<Rightarrow> bool cmd" where
  "loginWithUsernameAndPassword env username password =
     try_finally
       (await (loginCommon env (PasswordForm username password) False) (\<lambda>_. return True))
       emit_changed"

definition loginWithApiKey :: "env \<Rightarrow> string \<Rightarrow> bool cmd" where
  "loginWithApiKey env apikey =
     try_finally
       (await (loginCommon env (ApikeyForm apikey) False) (\<lambda>_. return True))
       emit_changed"

text \<open>A callback of the host: it rejects, or resolves to a value or to \<open>undefined\<close>.\<close>

definition call_cb :: "('a \<Rightarrow> call) \<Rightarrow> ('a \<Rightarrow> 'b option promise) \<Rightarrow> 'a \<Rightarrow> ('b option) cmd" where
  "call_cb kind cb x s =
     (case cb x of
        Rejected \<Rightarrow> (Inl CallbackError, called (kind x) s)
      | Resolved v \<Rightarrow> (Inr v, called (kind x) s))"

definition loginWithSSO :: "env \<Rightarrow> (string \<Rightarrow> string option promise) \<Rightarrow> bool cmd" where
  "loginWithSSO env cb =
     try_finally
       (await (getPasscodeEndpoint env) (\<lambda>passcodeEndpoint.
        await (call_cb PasscodeCallback cb passcodeEndpoint) (\<lambda>passcode.
        case passcode of
          None \<Rightarrow> return False
        | Some code \<Rightarrow>
            if code = [] then return False
            else await (loginCommon env (PasscodeForm code) False) (\<lambda>_. return True))))
       emit_changed"

text \<open>
  The \<open>while (url)\<close> loop of \<open>selectAccount\<close>. A \<open>URL\<close> object is always truthy, so the loop
  ends at the \<open>break\<close> or at an error only, and it runs forever when every page names a
  next page: the result \<open>None\<close> is the loop that does not return.
\<close>

partial_function (option) fetchAccounts ::
  "env \<Rightarrow> string option \<Rightarrow> string \<Rightarrow> resource list \<Rightarrow> session
     \<Rightarrow> ((error + resource list) \<times> session) option" where
  "fetchAccounts env bearer url collected s =
     (case rp_get_accounts env (ticks s) url bearer of
        Rejected \<Rightarrow> Some (Inl TransportError, called (HttpGet url bearer) s)
      | Resolved response \<Rightarrow>
          (case next_url response of
             None \<Rightarrow> Some (Inr (collected @ resources response), called (HttpGet url bearer) s)
           | Some next_page \<Rightarrow>
               if next_page = []
               then Some (Inr (collected @ resources response), called (HttpGet url bearer) s)
               else
                 (case new_URL env next_page of
                    None \<Rightarrow> Some (Inl InvalidURL, called (HttpGet url bearer) s)
                  | Some href \<Rightarrow>
                      fetchAccounts env bearer href (collected @ resources response)
                        (called (HttpGet url bearer) s))))"

definition to_account :: "resource \<Rightarrow> account" where
  "to_account r =
     \<lparr>guid = metadata_guid r, name = entity_name r, email = entity_owner_userid r\<rparr>"

text \<open>
  The \<open>try\<close> block of \<open>selectAccount\<close> after the loop, in two parts: \<open>chooseAccount\<close> from
  \<open>resources.map\<close> to the choice of the account, and \<open>persistAccount\<close> from
  \<open>store.setAccount\<close> to \<open>return true\<close>.
\<close>

definition persistAccount :: "env \<Rightarrow> account \<Rightarrow> bool cmd" where
  "persistAccount env selectedAccount =
     await (store_setAccount env (guid selectedAccount)) (\<lambda>_.
     await (store_setEmail env (email selectedAccount)) (\<lambda>_.
     await (refreshTokens env) (\<lambda>_.
     return True)))"

definition chooseAccount ::
  "env \<Rightarrow> (account list \<Rightarrow> account option promise) \<Rightarrow> resource list \<Rightarrow> bool cmd" where
  "chooseAccount env cb collected =
     (let accounts = map to_account collected
      in await (case accounts of
                  [only] \<Rightarrow> return (Some only)
                | _ \<Rightarrow> call_cb AccountCallback cb accounts) (\<lambda>selectedAccount.
         case selectedAccount of
           None \<Rightarrow> return False
         | Some selected \<Rightarrow> persistAccount env selected))"

definition selectAccount ::
  "env \<Rightarrow> (account list \<Rightarrow> account option promise) \<Rightarrow> session
     \<Rightarrow> ((error + bool) \<times> session) option" where
  "selectAccount env cb s =
     map_option (\<lambda>(r, s'). (r, emit_changed s'))
       (case getAccessToken env False s of
          (Inl e, s1) \<Rightarrow> Some (Inl e, s1)
        | (Inr bearer, s1) \<Rightarrow>
            (case fetchAccounts env bearer ACCOUNTS_URL [] s1 of
               None \<Rightarrow> None
             | Some (Inl e, s2) \<Rightarrow> Some (Inl e, s2)
             | Some (Inr collected, s2) \<Rightarrow> Some (chooseAccount env cb collected s2)))"

text \<open>The callback of \<open>setInterval\<close> in the constructor: every error is swallowed.\<close>

definition timer :: "env \<Rightarrow> unit cmd" where
  "timer env =
     try_catch
       (await (loggedIn env) (\<lambda>isLoggedIn.
        if isLoggedIn then checkTokens env else return ()))
       (return ())"

section \<open>Observations used in the statements\<close>

text \<open>What the stores hold for the three keys of the session.\<close>

definition storedRefreshToken :: "session \<Rightarrow> string option" where
  "storedRefreshToken s = secureStore s (SERVICE, REFRESH_TOKEN_ACCOUNT)"

definition storedAccount :: "session \<Rightarrow> string option" where
  "storedAccount s = globalState s ACCOUNT_KEY"

definition storedEmail :: "session \<Rightarrow> string option" where
  "storedEmail s = globalState s EMAIL_KEY"

text \<open>The calls of the account chooser among the calls made.\<close>

definition is_chooser_call :: "call \<Rightarrow> bool" where
  "is_chooser_call c = (case c of AccountCallback accounts \<Rightarrow> True | _ \<Rightarrow> False)"

text \<open>The storage accepts the \<open>k\<close> storage operations made as calls \<open>n\<close>, ..., \<open>n + k - 1\<close>.\<close>

fun accepts :: "env \<Rightarrow> nat \<Rightarrow> nat \<Rightarrow> bool" where
  "accepts env n 0 = True"
| "accepts env n (Suc k) = (\<not> storage_rejects env n \<and> accepts env (Suc n) k)"

text \<open>
  The account service presents the pages \<open>pages\<close>, in this order, as one listing: the
  request for \<open>url\<close> made as call \<open>n\<close> resolves to the first page, every page but the last
  names a next page that parses as a URL, at which the rest of the listing is found, and
  the last page names none.
\<close>

fun listing :: "env \<Rightarrow> string option \<Rightarrow> string \<Rightarrow> nat \<Rightarrow> accounts_response list \<Rightarrow> bool" where
  "listing env bearer url n [] = False"
| "listing env bearer url n [page] =
     (rp_get_accounts env n url bearer = Resolved page \<and> \<not> truthy (next_url page))"
| "listing env bearer url n (page # later) =
     (rp_get_accounts env n url bearer = Resolved page \<and>
      (case next_url page of
         None \<Rightarrow> False
       | Some next_page \<Rightarrow>
           next_page \<noteq> [] \<and>
           (case new_URL env next_page of
              None \<Rightarrow> False
            | Some href \<Rightarrow> listing env bearer href (Suc n) later)))"

text \<open>
  The session once the storage has accepted the two writes of \<open>selectAccount\<close>, that of
  the account id and then that of the email of the selected account.
\<close>

definition persisted :: "account \<Rightarrow> session \<Rightarrow> session" where
  "persisted selected s =
     s\<lparr>globalState := (globalState s)(ACCOUNT_KEY \<mapsto> guid selected, EMAIL_KEY \<mapsto> email selected),
       trace := trace s @ [MementoUpdate ACCOUNT_KEY (Some (guid selected)),
                           MementoUpdate EMAIL_KEY (Some (email selected))]\<rparr>"


section \<open>Example sessions and environments\<close>

text \<open>
  A session with an account selected. At the clock of the environments below its access
  token has 900 seconds left; the variant \<open>stale_session\<close> holds no token and needs a
  refresh.
\<close>

definition fresh_session :: session where
  "fresh_session =
     \<lparr>accessToken = Some ''a1'', expiration = 1600000900,
      globalState = [ACCOUNT_KEY \<mapsto> ''g0'', EMAIL_KEY \<mapsto> ''e0''],
      secureStore = [(SERVICE, REFRESH_TOKEN_ACCOUNT) \<mapsto> ''r1''],
      emitted = 0, trace = []\<rparr>"

definition stale_session :: session where
  "stale_session = fresh_session\<lparr>accessToken := None, expiration := 0\<rparr>"

definition token_url :: string where
  "token_url = ''https://iam.cloud.ibm.com/identity/token''"

definition passcode_url :: string where
  "passcode_url = ''https://identity-2.us-south.iam.cloud.ibm.com/identity/passcode''"

definition page2_url :: string where
  "page2_url = ''https://accountmanagement.ng.bluemix.net/coe/v2/accounts?page=2''"

definition page3_url :: string where
  "page3_url = ''https://accountmanagement.ng.bluemix.net/coe/v2/accounts?page=3''"

text \<open>
  No network: every HTTP request is rejected. The storage accepts every operation, the URL
  parser accepts every string and leaves it as it is, and the clock reads 1600000000
  seconds.
\<close>

definition env_offline :: env where
  "env_offline =
     \<lparr>getTime = 1600000000000, storage_rejects = (\<lambda>n. False), new_URL = Some,
      rp_get_openid = (\<lambda>n url. Rejected),
      rp_post = (\<lambda>n url frm. Rejected),
      rp_get_accounts = (\<lambda>n url bearer. Rejected)\<rparr>"

definition token_ok :: "int \<Rightarrow> token_response" where
  "token_ok expires =
     \<lparr>statusCode = 200,
      body = \<lparr>errorCode = None, errorDetails = None, errorMessage = None,
              access_token = Some ''a2'', expiration_body = expires, refresh_token = ''r2''\<rparr>\<rparr>"

definition acct :: "string \<Rightarrow> resource" where
  "acct g = \<lparr>metadata_guid = g, entity_name = ''n'' @ g, entity_owner_userid = ''e'' @ g\<rparr>"

text \<open>Three pages of two accounts each, linked by \<open>next_url\<close>.\<close>

definition three_pages :: "accounts_response list" where
  "three_pages =
     [\<lparr>resources = [acct ''1'', acct ''2''], next_url = Some page2_url\<rparr>,
      \<lparr>resources = [acct ''3'', acct ''4''], next_url = Some page3_url\<rparr>,
      \<lparr>resources = [acct ''5'', acct ''6''], next_url = None\<rparr>]"

definition serve_pages :: "nat \<Rightarrow> string \<Rightarrow> string option \<Rightarrow> accounts_response promise" where
  "serve_pages n url bearer =
     (if url = ACCOUNTS_URL then Resolved (three_pages ! 0)
      else if url = page2_url then Resolved (three_pages ! 1)
      else if url = page3_url then Resolved (three_pages ! 2)
      else Rejected)"

text \<open>
  The provider answers every exchange with a token that expires at \<open>expires\<close>, and the
  account service serves the three pages.
\<close>

definition env_online :: "int \<Rightarrow> env" where
  "env_online expires =
     env_offline
       \<lparr>rp_get_openid :=
          (\<lambda>n url. Resolved \<lparr>token_endpoint = token_url, passcode_endpoint = passcode_url\<rparr>),
        rp_post := (\<lambda>n url frm. Resolved (token_ok expires)),
        rp_get_accounts := serve_pages\<rparr>"

text \<open>The account service knows one account only.\<close>

definition env_single :: "int \<Rightarrow> env" where
  "env_single expires =
     (env_online expires)
       \<lparr>rp_get_accounts :=
          (\<lambda>n url bearer. Resolved \<lparr>resources = [acct ''7''], next_url = None\<rparr>)\<rparr>"

section \<open>Basic facts\<close>

lemma keys_distinct [simp]: "ACCOUNT_KEY \<noteq> EMAIL_KEY" "EMAIL_KEY \<noteq> ACCOUNT_KEY"
  by (simp_all add: ACCOUNT_KEY_def EMAIL_KEY_def)

lemmas store_defs = store_getAccount_def store_setAccount_def store_deleteAccount_def
  store_getEmail_def store_setEmail_def store_deleteEmail_def store_getRefreshToken_def
  store_setRefreshToken_def store_deleteRefreshToken_def memento_get_def memento_update_def
  getPassword_def setPassword_def deletePassword_def

lemmas cmd_defs = return_def throw_def await_def try_finally_def try_catch_def
  called_def ticks_def emit_changed_def

lemmas stored_defs = storedRefreshToken_def storedAccount_def storedEmail_def

lemmas http_defs = getOpenIDConfiguration_def getTokenEndpoint_def getPasscodeEndpoint_def
  post_token_def URL_new_def

lemmas all_defs = getAccessToken_def getRefreshToken_def loggedIn_def accountSelected_def
  checkTokens_def refreshTokens_def refreshExchange_def loginCommon_def logout_def now_def
  loginWithUsernameAndPassword_def loginWithApiKey_def loginWithSSO_def call_cb_def
  http_defs store_defs cmd_defs stored_defs truthy_def

lemmas session_defs = stale_session_def fresh_session_def

lemmas env_defs = env_offline_def env_online_def env_single_def token_ok_def

lemma accepts_3:
  "accepts env n 3 \<longleftrightarrow>
     \<not> storage_rejects env n \<and> \<not> storage_rejects env (Suc n) \<and>
     \<not> storage_rejects env (Suc (Suc n))"
  by (simp add: numeral_3_eq_3)

lemma accepts_2:
  "accepts env n 2 \<longleftrightarrow> \<not> storage_rejects env n \<and> \<not> storage_rejects env (Suc n)"
  by (simp add: numeral_2_eq_2)

lemma accepts_add: "accepts env n (j + k) \<longleftrightarrow> accepts env n j \<and> accepts env (n + j) k"
  by (induction j arbitrary: n) auto

section \<open>Logout\<close>

lemma logout_accepted:
  assumes "accepts env (ticks s) 3"
  shows "logout env s =
     (Inr (), s\<lparr>accessToken := None, expiration := 0,
               globalState := (globalState s)(ACCOUNT_KEY := None, EMAIL_KEY := None),
               secureStore := (secureStore s)((SERVICE, REFRESH_TOKEN_ACCOUNT) := None),
               emitted := Suc (emitted s),
               trace := trace s @ [MementoUpdate ACCOUNT_KEY None, MementoUpdate EMAIL_KEY None,
                                   DeletePassword SERVICE REFRESH_TOKEN_ACCOUNT]\<rparr>)"
  using assms unfolding accepts_3
  by (simp add: logout_def store_defs cmd_defs)

lemma logout_always:
  assumes "logout env s = (r, s')"
  shows "accessToken s' = None \<and> expiration s' = 0 \<and> emitted s' = Suc (emitted s)"
  using assms
  by (auto simp: logout_def store_defs cmd_defs split: if_splits)

lemma logout_rejected:
  assumes "\<not> accepts env (ticks s) 3" and "logout env s = (r, s')"
  shows "r = Inl StorageError"
  using assms unfolding accepts_3
  by (auto simp: logout_def store_defs cmd_defs split: if_splits)

lemma logout_ok:
  assumes "logout env s = (Inr u, s')"
  shows "accessToken s' = None \<and> expiration s' = 0 \<and> storedAccount s' = None \<and>
         storedEmail s' = None \<and> storedRefreshToken s' = None"
  using assms
  by (auto simp: logout_def store_defs cmd_defs stored_defs split: if_splits)

lemma logout_succeeds_iff:
  assumes "logout env s = (r, s')"
  shows "r = Inr () \<longleftrightarrow> accepts env (ticks s) 3"
  using assms unfolding accepts_3
  by (auto simp: logout_def store_defs cmd_defs split: if_splits)

lemma logout_again:
  assumes "storedAccount s = None" and "storedEmail s = None" and "storedRefreshToken s = None"
      and "logout env s = (r, s')"
  shows "globalState s' = globalState s \<and> secureStore s' = secureStore s"
  using assms
  by (auto simp: logout_def store_defs cmd_defs stored_defs fun_upd_idem split: if_splits)

text \<open>
  Claim C5, as the code has it. \<open>logout\<close> always clears the in-memory access token and its
  expiry and emits one \<open>'changed'\<close> event. It deletes the account id, the email and the
  refresh token, in this order, as long as the storage accepts the deletes. A delete that
  the storage rejects ends \<open>logout\<close> with that error: the deletes after it are not
  attempted (they are not in the trace) and what they would have deleted stays stored.
\<close>

theorem logout_clears:
  assumes "logout env s = (r, s')"
  shows "accessToken s' = None \<and> expiration s' = 0 \<and> emitted s' = Suc (emitted s) \<and>
    (accepts env (ticks s) 3 \<longrightarrow>
       r = Inr () \<and> storedAccount s' = None \<and> storedEmail s' = None \<and>
       storedRefreshToken s' = None \<and>
       trace s' = trace s @ [MementoUpdate ACCOUNT_KEY None, MementoUpdate EMAIL_KEY None,
                             DeletePassword SERVICE REFRESH_TOKEN_ACCOUNT]) \<and>
    (storage_rejects env (ticks s) \<longrightarrow>
       r = Inl StorageError \<and> storedAccount s' = storedAccount s \<and>
       storedEmail s' = storedEmail s \<and> storedRefreshToken s' = storedRefreshToken s \<and>
       trace s' = trace s @ [MementoUpdate ACCOUNT_KEY None]) \<and>
    (\<not> storage_rejects env (ticks s) \<and> storage_rejects env (Suc (ticks s)) \<longrightarrow>
       r = Inl StorageError \<and> storedAccount s' = None \<and>
       storedEmail s' = storedEmail s \<and> storedRefreshToken s' = storedRefreshToken s \<and>
       trace s' = trace s @ [MementoUpdate ACCOUNT_KEY None, MementoUpdate EMAIL_KEY None]) \<and>
    (\<not> storage_rejects env (ticks s) \<and> \<not> storage_rejects env (Suc (ticks s)) \<and>
     storage_rejects env (Suc (Suc (ticks s))) \<longrightarrow>
       r = Inl StorageError \<and> storedAccount s' = None \<and>
       storedEmail s' = None \<and> storedRefreshToken s' = storedRefreshToken s \<and>
       trace s' = trace s @ [MementoUpdate ACCOUNT_KEY None, MementoUpdate EMAIL_KEY None,
                             DeletePassword SERVICE REFRESH_TOKEN_ACCOUNT])"
  using assms unfolding accepts_3
  by (auto simp: logout_def store_defs cmd_defs stored_defs split: if_splits)

text \<open>
  The theorem at four inputs: a storage that accepts everything, and storages that reject
  the first, the second and the third delete.
\<close>

theorem logout_clears_witness:
  "fst (logout env_offline fresh_session) = Inr () \<and>
   storedRefreshToken (snd (logout env_offline fresh_session)) = None \<and>
   storedAccount (snd (logout env_offline fresh_session)) = None \<and>
   storedEmail (snd (logout env_offline fresh_session)) = None \<and>
   accessToken (snd (logout env_offline fresh_session)) = None \<and>
   fst (logout (env_offline\<lparr>storage_rejects := (\<lambda>n. n = 0)\<rparr>) fresh_session) = Inl StorageError \<and>
   storedRefreshToken (snd (logout (env_offline\<lparr>storage_rejects := (\<lambda>n. n = 0)\<rparr>) fresh_session))
     = Some ''r1'' \<and>
   fst (logout (env_offline\<lparr>storage_rejects := (\<lambda>n. n = 1)\<rparr>) fresh_session) = Inl StorageError \<and>
   storedEmail (snd (logout (env_offline\<lparr>storage_rejects := (\<lambda>n. n = 1)\<rparr>) fresh_session))
     = Some ''e0'' \<and>
   fst (logout (env_offline\<lparr>storage_rejects := (\<lambda>n. n = 2)\<rparr>) fresh_session) = Inl StorageError \<and>
   storedRefreshToken (snd (logout (env_offline\<lparr>storage_rejects := (\<lambda>n. n = 2)\<rparr>) fresh_session))
     = Some ''r1''"
  using logout_clears [OF surjective_pairing, of env_offline fresh_session]
        logout_clears [OF surjective_pairing,
                       of "env_offline\<lparr>storage_rejects := (\<lambda>n. n = 0)\<rparr>" fresh_session]
        logout_clears [OF surjective_pairing,
                       of "env_offline\<lparr>storage_rejects := (\<lambda>n. n = 1)\<rparr>" fresh_session]
        logout_clears [OF surjective_pairing,
                       of "env_offline\<lparr>storage_rejects := (\<lambda>n. n = 2)\<rparr>" fresh_session]
  by (simp add: accepts_3 ticks_def fresh_session_def env_offline_def stored_defs)

text \<open>
  Claim C5 as the specification states it fails: when the storage rejects the first delete
  (that of the account id), \<open>logout\<close> fails with the storage error, the only call made is
  that delete, and the account id, the email and the refresh token all stay stored.
\<close>

theorem logout_failing_delete_counterexample:
  "fst (logout (env_offline\<lparr>storage_rejects := (\<lambda>n. n = 0)\<rparr>) fresh_session) = Inl StorageError \<and>
   trace (snd (logout (env_offline\<lparr>storage_rejects := (\<lambda>n. n = 0)\<rparr>) fresh_session))
     = [MementoUpdate ACCOUNT_KEY None] \<and>
   storedAccount (snd (logout (env_offline\<lparr>storage_rejects := (\<lambda>n. n = 0)\<rparr>) fresh_session))
     = Some ''g0'' \<and>
   storedEmail (snd (logout (env_offline\<lparr>storage_rejects := (\<lambda>n. n = 0)\<rparr>) fresh_session))
     = Some ''e0'' \<and>
   storedRefreshToken (snd (logout (env_offline\<lparr>storage_rejects := (\<lambda>n. n = 0)\<rparr>) fresh_session))
     = Some ''r1''"
  by (simp add: logout_def store_defs cmd_defs stored_defs fresh_session_def env_offline_def)

text \<open>
  Claim C9, as the code has it. A call of \<open>logout\<close> succeeds exactly when the storage
  accepts its three deletes, and whether it does or not it leaves no access token and the
  expiry 0. After a first call that succeeded no refresh token, account id or email is
  stored, and a second call in a row leaves the access token, the expiry and both stores
  as the first call left them; that second call succeeds exactly when the storage accepts
  its three deletes, which are deletes of absent keys. Whenever the second call succeeds,
  nothing is stored after it.
\<close>

theorem logout_idempotent:
  assumes "logout env s = (r1, s1)"
      and "logout env s1 = (r2, s2)"
  shows "(r1 = Inr () \<longleftrightarrow> accepts env (ticks s) 3) \<and>
         (r2 = Inr () \<longleftrightarrow> accepts env (ticks s1) 3) \<and>
         accessToken s1 = None \<and> expiration s1 = 0 \<and>
         accessToken s2 = None \<and> expiration s2 = 0 \<and>
         (r1 = Inr () \<longrightarrow>
            storedRefreshToken s1 = None \<and> storedAccount s1 = None \<and> storedEmail s1 = None \<and>
            globalState s2 = globalState s1 \<and> secureStore s2 = secureStore s1 \<and>
            ticks s1 = ticks s + 3) \<and>
         (r2 = Inr () \<longrightarrow>
            storedRefreshToken s2 = None \<and> storedAccount s2 = None \<and> storedEmail s2 = None)"
proof -
  have a: "r1 = Inr () \<longleftrightarrow> accepts env (ticks s) 3"
    by (rule logout_succeeds_iff [OF assms(1)])
  have b: "r2 = Inr () \<longleftrightarrow> accepts env (ticks s1) 3"
    by (rule logout_succeeds_iff [OF assms(2)])
  have c: "accessToken s1 = None \<and> expiration s1 = 0"
    using logout_always [OF assms(1)] by simp
  have d: "accessToken s2 = None \<and> expiration s2 = 0"
    using logout_always [OF assms(2)] by simp
  have e: "storedRefreshToken s1 = None \<and> storedAccount s1 = None \<and> storedEmail s1 = None \<and>
           globalState s2 = globalState s1 \<and> secureStore s2 = secureStore s1 \<and>
           ticks s1 = ticks s + 3" if ok: "r1 = Inr ()"
  proof -
    from assms(1) ok have lo: "logout env s = (Inr (), s1)" by simp
    from logout_ok [OF lo] have f: "storedAccount s1 = None" "storedEmail s1 = None"
      "storedRefreshToken s1 = None" by simp_all
    from ok a have "accepts env (ticks s) 3" by simp
    from logout_accepted [OF this] assms(1) have "ticks s1 = ticks s + 3"
      by (auto simp: ticks_def)
    with f logout_again [OF f assms(2)] show ?thesis by simp
  qed
  have g: "storedRefreshToken s2 = None \<and> storedAccount s2 = None \<and> storedEmail s2 = None"
    if ok: "r2 = Inr ()"
  proof -
    from assms(2) ok have lo: "logout env s1 = (Inr (), s2)" by simp
    from logout_ok [OF lo] show ?thesis by simp
  qed
  from a b c d e g show ?thesis by blast
qed

text \<open>
  The theorem at a session with an account selected and a storage that accepts everything:
  both calls succeed and the second leaves the empty state of the first.
\<close>

theorem logout_idempotent_witness:
  "fst (logout env_offline fresh_session) = Inr () \<and>
   fst (logout env_offline (snd (logout env_offline fresh_session))) = Inr () \<and>
   secureStore (snd (logout env_offline (snd (logout env_offline fresh_session))))
     = secureStore (snd (logout env_offline fresh_session)) \<and>
   globalState (snd (logout env_offline (snd (logout env_offline fresh_session))))
     = globalState (snd (logout env_offline fresh_session)) \<and>
   storedRefreshToken (snd (logout env_offline fresh_session)) = None \<and>
   storedAccount (snd (logout env_offline fresh_session)) = None \<and>
   storedEmail (snd (logout env_offline fresh_session)) = None \<and>
   accessToken (snd (logout env_offline fresh_session)) = None \<and>
   expiration (snd (logout env_offline fresh_session)) = 0"
proof -
  have h: "accepts env_offline n 3" for n
    by (simp add: accepts_3 env_offline_def)
  show ?thesis
    using logout_idempotent [OF surjective_pairing surjective_pairing, of env_offline fresh_session]
    by (simp add: h)
qed

text \<open>
  Claim C9 as the specification states it fails where the storage rejects a delete of a key
  that is present, here the first delete of the first call: that call fails with the
  storage error and leaves the account id, the email and the refresh token stored; the
  second call, all of whose deletes are accepted, succeeds and leaves none of them. The
  first call has not succeeded and the two states differ, although no delete of an absent
  key was rejected.
\<close>

theorem logout_twice_counterexample:
  "fst (logout (env_offline\<lparr>storage_rejects := (\<lambda>n. n = 0)\<rparr>) fresh_session) = Inl StorageError \<and>
   storedAccount (snd (logout (env_offline\<lparr>storage_rejects := (\<lambda>n. n = 0)\<rparr>) fresh_session))
     = Some ''g0'' \<and>
   storedEmail (snd (logout (env_offline\<lparr>storage_rejects := (\<lambda>n. n = 0)\<rparr>) fresh_session))
     = Some ''e0'' \<and>
   storedRefreshToken (snd (logout (env_offline\<lparr>storage_rejects := (\<lambda>n. n = 0)\<rparr>) fresh_session))
     = Some ''r1'' \<and>
   fst (logout (env_offline\<lparr>storage_rejects := (\<lambda>n. n = 0)\<rparr>)
          (snd (logout (env_offline\<lparr>storage_rejects := (\<lambda>n. n = 0)\<rparr>) fresh_session))) = Inr () \<and>
   storedAccount (snd (logout (env_offline\<lparr>storage_rejects := (\<lambda>n. n = 0)\<rparr>)
          (snd (logout (env_offline\<lparr>storage_rejects := (\<lambda>n. n = 0)\<rparr>) fresh_session)))) = None \<and>
   storedEmail (snd (logout (env_offline\<lparr>storage_rejects := (\<lambda>n. n = 0)\<rparr>)
          (snd (logout (env_offline\<lparr>storage_rejects := (\<lambda>n. n = 0)\<rparr>) fresh_session)))) = None \<and>
   storedRefreshToken (snd (logout (env_offline\<lparr>storage_rejects := (\<lambda>n. n = 0)\<rparr>)
          (snd (logout (env_offline\<lparr>storage_rejects := (\<lambda>n. n = 0)\<rparr>) fresh_session)))) = None"
  by (simp add: logout_def store_defs cmd_defs stored_defs fresh_session_def env_offline_def)

section \<open>The token exchange\<close>

lemma loggedIn_eq:
  "loggedIn env s =
     (if storage_rejects env (ticks s)
      then (Inl StorageError, called (GetPassword SERVICE REFRESH_TOKEN_ACCOUNT) s)
      else (Inr (truthy (storedRefreshToken s)), called (GetPassword SERVICE REFRESH_TOKEN_ACCOUNT) s))"
  by (simp add: loggedIn_def store_defs cmd_defs stored_defs)

lemma accountSelected_eq: "accountSelected s = (Inr (truthy (storedAccount s)), s)"
  by (simp add: accountSelected_def store_defs cmd_defs stored_defs)

lemma loginCommon_emitted:
  "loginCommon env frm refresh s = (r, s') \<Longrightarrow> emitted s' = emitted s"
  by (auto simp: loginCommon_def http_defs store_defs cmd_defs
           split: promise.splits option.splits if_splits)

lemma loginCommon_refresh_frame:
  "loginCommon env frm True s = (r, s') \<Longrightarrow> globalState s' = globalState s"
  by (auto simp: loginCommon_def http_defs store_defs cmd_defs
           split: promise.splits option.splits if_splits)


lemma loginCommon_refresh:
  assumes "loginCommon env frm True s = (Inr u, s')"
  shows "\<exists>endpoint response.
           rp_post env (Suc (ticks s)) endpoint frm = Resolved response \<and>
           starts_with_2 (statusCode response) \<and>
           accessToken s' = access_token (body response) \<and>
           expiration s' = expiration_body (body response) \<and>
           globalState s' = globalState s \<and>
           storedRefreshToken s' = Some (refresh_token (body response)) \<and>
           trace s' = trace s @
             [HttpGet OPENID_URL None, HttpPost endpoint frm,
              SetPassword SERVICE REFRESH_TOKEN_ACCOUNT (refresh_token (body response))]"
  using assms
  by (auto simp: loginCommon_def http_defs store_defs cmd_defs stored_defs
           split: promise.splits option.splits if_splits)

lemma refreshExchange_ok:
  assumes "refreshExchange env s = (Inr u, s')"
  shows "\<exists>endpoint token response.
           storedRefreshToken s = Some token \<and> token \<noteq> [] \<and> \<not> storage_rejects env (ticks s) \<and>
           rp_post env (Suc (Suc (ticks s))) endpoint (RefreshForm (storedAccount s) token)
             = Resolved response \<and>
           starts_with_2 (statusCode response) \<and>
           accessToken s' = access_token (body response) \<and>
           expiration s' = expiration_body (body response) \<and>
           globalState s' = globalState s \<and>
           storedRefreshToken s' = Some (refresh_token (body response)) \<and>
           emitted s' = emitted s \<and>
           trace s' = trace s @
             [GetPassword SERVICE REFRESH_TOKEN_ACCOUNT,
              HttpGet OPENID_URL None,
              HttpPost endpoint (RefreshForm (storedAccount s) token),
              SetPassword SERVICE REFRESH_TOKEN_ACCOUNT (refresh_token (body response))]"
proof -
  let ?s1 = "called (GetPassword SERVICE REFRESH_TOKEN_ACCOUNT) s"
  from assms obtain token where
    tok: "storedRefreshToken s = Some token" "token \<noteq> []" "\<not> storage_rejects env (ticks s)"
    and lc: "loginCommon env (RefreshForm (storedAccount s) token) True ?s1 = (Inr u, s')"
    by (auto simp: refreshExchange_def store_defs cmd_defs stored_defs
             split: option.splits if_splits)
  from loginCommon_refresh [OF lc] loginCommon_emitted [OF lc] tok show ?thesis
    by (auto simp: cmd_defs stored_defs)
qed

lemma refreshExchange_frame:
  "refreshExchange env s = (r, s') \<Longrightarrow> globalState s' = globalState s \<and> emitted s' = emitted s"
  by (auto simp: refreshExchange_def store_defs cmd_defs
           dest: loginCommon_refresh_frame loginCommon_emitted
           split: option.splits if_splits prod.splits sum.splits)

lemma refreshExchange_bound:
  assumes "refreshExchange env s = (r, s')"
  shows "\<exists>rest. trace s' = trace s @ GetPassword SERVICE REFRESH_TOKEN_ACCOUNT # rest \<and>
           (\<forall>url frm. HttpPost url frm \<in> set rest \<longrightarrow>
              (\<exists>token. storedRefreshToken s = Some token \<and>
                       frm = RefreshForm (storedAccount s) token))"
  using assms
  by (auto simp: refreshExchange_def loginCommon_def http_defs store_defs cmd_defs stored_defs
           split: promise.splits option.splits if_splits)

lemma refreshTokens_eq:
  "refreshTokens env s =
     (case refreshExchange env s of
        (Inr u, s') \<Rightarrow> (Inr u, s')
      | (Inl e, s') \<Rightarrow>
          (case logout env s' of
             (Inl e', s'') \<Rightarrow> (Inl e', s'')
           | (Inr _, s'') \<Rightarrow> (Inl NotLoggedIn, s'')))"
  by (simp add: refreshTokens_def try_catch_def await_def throw_def split: prod.splits sum.splits)

section \<open>Token getters\<close>

lemma getAccessToken_eq:
  "getAccessToken env accountRequired s =
     (case loggedIn env s of
        (Inl e, s1) \<Rightarrow> (Inl e, emit_changed s1)
      | (Inr isLoggedIn, s1) \<Rightarrow>
          if \<not> isLoggedIn then (Inl NotLoggedIn, emit_changed s1)
          else if accountRequired \<and> \<not> truthy (storedAccount s1)
          then (Inl NoAccountSelected, emit_changed s1)
          else
            (case checkTokens env s1 of
               (Inl e, s2) \<Rightarrow> (Inl e, emit_changed s2)
             | (Inr u, s2) \<Rightarrow> (Inr (accessToken s2), emit_changed s2)))"
  by (auto simp: getAccessToken_def accountSelected_eq try_finally_def await_def throw_def
                return_def split: prod.splits sum.splits)

lemma getRefreshToken_eq:
  "getRefreshToken env accountRequired s =
     (case loggedIn env s of
        (Inl e, s1) \<Rightarrow> (Inl e, emit_changed s1)
      | (Inr isLoggedIn, s1) \<Rightarrow>
          if \<not> isLoggedIn then (Inl NotLoggedIn, emit_changed s1)
          else if accountRequired \<and> \<not> truthy (storedAccount s1)
          then (Inl NoAccountSelected, emit_changed s1)
          else
            (case checkTokens env s1 of
               (Inl e, s2) \<Rightarrow> (Inl e, emit_changed s2)
             | (Inr u, s2) \<Rightarrow>
                 (case store_getRefreshToken env s2 of (r, s3) \<Rightarrow> (r, emit_changed s3))))"
  by (auto simp: getRefreshToken_def accountSelected_eq try_finally_def await_def throw_def
                return_def split: prod.splits sum.splits)

lemma store_getRefreshToken_eq:
  "store_getRefreshToken env s =
     (if storage_rejects env (ticks s)
      then (Inl StorageError, called (GetPassword SERVICE REFRESH_TOKEN_ACCOUNT) s)
      else (Inr (storedRefreshToken s), called (GetPassword SERVICE REFRESH_TOKEN_ACCOUNT) s))"
  by (simp add: store_defs stored_defs)

lemma called_obs [simp]:
  "accessToken (called c s) = accessToken s" "expiration (called c s) = expiration s"
  "globalState (called c s) = globalState s" "secureStore (called c s) = secureStore s"
  "emitted (called c s) = emitted s" "trace (called c s) = trace s @ [c]"
  "storedAccount (called c s) = storedAccount s" "storedEmail (called c s) = storedEmail s"
  "storedRefreshToken (called c s) = storedRefreshToken s"
  "ticks (called c s) = Suc (ticks s)"
  by (simp_all add: called_def stored_defs ticks_def)

lemma emit_obs [simp]:
  "accessToken (emit_changed s) = accessToken s" "expiration (emit_changed s) = expiration s"
  "globalState (emit_changed s) = globalState s" "secureStore (emit_changed s) = secureStore s"
  "emitted (emit_changed s) = Suc (emitted s)" "trace (emit_changed s) = trace s"
  "storedAccount (emit_changed s) = storedAccount s" "storedEmail (emit_changed s) = storedEmail s"
  "storedRefreshToken (emit_changed s) = storedRefreshToken s"
  "ticks (emit_changed s) = ticks s"
  by (simp_all add: emit_changed_def stored_defs ticks_def)

lemma checkTokens_eq:
  "checkTokens env s = (if expiration s - now env < 60 then refreshTokens env s else (Inr (), s))"
  by (simp add: checkTokens_def)

lemma starts_with_2_200 [simp]: "starts_with_2 200"
  by (simp add: starts_with_2_def)

lemma offline_accepts [simp]: "accepts env_offline n k"
  by (induction k arbitrary: n) (simp_all add: env_offline_def)

text \<open>
  Claim C3. \<open>getAccessToken\<close> and \<open>getRefreshToken\<close> fail alike: with the storage error
  when the secure store rejects the read of the refresh token, with \<open>NotLoggedIn\<close> when the
  store holds no (or an empty) refresh token, with \<open>NoAccountSelected\<close> when an account is
  required and none (or an empty one) is stored, and with the error of \<open>checkTokens\<close> when
  the freshness check fails. Otherwise \<open>getAccessToken\<close> returns the access token held in
  memory after the freshness check, and \<open>getRefreshToken\<close> reads the secure store again
  and returns the refresh token stored after the freshness check.
\<close>

theorem token_getters_preconditions:
  "(storage_rejects env (ticks s) \<longrightarrow>
      fst (getAccessToken env accountRequired s) = Inl StorageError \<and>
      fst (getRefreshToken env accountRequired s) = Inl StorageError) \<and>
   (\<not> storage_rejects env (ticks s) \<and> \<not> truthy (storedRefreshToken s) \<longrightarrow>
      fst (getAccessToken env accountRequired s) = Inl NotLoggedIn \<and>
      fst (getRefreshToken env accountRequired s) = Inl NotLoggedIn) \<and>
   (\<not> storage_rejects env (ticks s) \<and> truthy (storedRefreshToken s) \<and>
    accountRequired \<and> \<not> truthy (storedAccount s) \<longrightarrow>
      fst (getAccessToken env accountRequired s) = Inl NoAccountSelected \<and>
      fst (getRefreshToken env accountRequired s) = Inl NoAccountSelected) \<and>
   (\<not> storage_rejects env (ticks s) \<and> truthy (storedRefreshToken s) \<and>
    (accountRequired \<longrightarrow> truthy (storedAccount s)) \<longrightarrow>
      (case checkTokens env (called (GetPassword SERVICE REFRESH_TOKEN_ACCOUNT) s) of
         (Inl e, s2) \<Rightarrow>
           getAccessToken env accountRequired s = (Inl e, emit_changed s2) \<and>
           getRefreshToken env accountRequired s = (Inl e, emit_changed s2)
       | (Inr u, s2) \<Rightarrow>
           getAccessToken env accountRequired s = (Inr (accessToken s2), emit_changed s2) \<and>
           getRefreshToken env accountRequired s =
             (if storage_rejects env (ticks s2) then Inl StorageError
              else Inr (storedRefreshToken s2),
              emit_changed (called (GetPassword SERVICE REFRESH_TOKEN_ACCOUNT) s2))))"
  by (auto simp: getAccessToken_eq getRefreshToken_eq loggedIn_eq store_getRefreshToken_eq
           split: prod.splits sum.splits)

text \<open>
  The theorem at a logged-out session, at a session without an account (required, and not
  required), at a session that needs a refresh (the refresh token returned is the rotated
  one, \<open>r2\<close>, not \<open>r1\<close> that was sent), and at a secure store that rejects the read.
\<close>

theorem token_getters_preconditions_witness:
  "fst (getAccessToken env_offline True (fresh_session\<lparr>secureStore := Map.empty\<rparr>)) = Inl NotLoggedIn \<and>
   fst (getRefreshToken env_offline True (fresh_session\<lparr>secureStore := Map.empty\<rparr>)) = Inl NotLoggedIn \<and>
   fst (getAccessToken env_offline True (fresh_session\<lparr>globalState := Map.empty\<rparr>))
     = Inl NoAccountSelected \<and>
   fst (getRefreshToken env_offline True (fresh_session\<lparr>globalState := Map.empty\<rparr>))
     = Inl NoAccountSelected \<and>
   fst (getAccessToken env_offline False (fresh_session\<lparr>globalState := Map.empty\<rparr>))
     = Inr (Some ''a1'') \<and>
   fst (getRefreshToken env_offline False (fresh_session\<lparr>globalState := Map.empty\<rparr>))
     = Inr (Some ''r1'') \<and>
   fst (getAccessToken (env_online 1600003600) True stale_session) = Inr (Some ''a2'') \<and>
   fst (getRefreshToken (env_online 1600003600) True stale_session) = Inr (Some ''r2'') \<and>
   fst (getAccessToken (env_offline\<lparr>storage_rejects := (\<lambda>n. n = 0)\<rparr>) True fresh_session)
     = Inl StorageError \<and>
   fst (getRefreshToken (env_offline\<lparr>storage_rejects := (\<lambda>n. n = 0)\<rparr>) True fresh_session)
     = Inl StorageError"
proof -
  let ?out = "fresh_session\<lparr>secureStore := Map.empty\<rparr>"
  let ?noacc = "fresh_session\<lparr>globalState := Map.empty\<rparr>"
  have out: "\<not> storage_rejects env_offline (ticks ?out) \<and> \<not> truthy (storedRefreshToken ?out)"
    by (simp add: env_defs session_defs stored_defs truthy_def)
  have noacc: "\<not> storage_rejects env_offline (ticks ?noacc) \<and> truthy (storedRefreshToken ?noacc)
                 \<and> \<not> truthy (storedAccount ?noacc)"
    by (simp add: env_defs session_defs stored_defs truthy_def)
  have ct1: "checkTokens env_offline (called (GetPassword SERVICE REFRESH_TOKEN_ACCOUNT) ?noacc)
               = (Inr (), called (GetPassword SERVICE REFRESH_TOKEN_ACCOUNT) ?noacc)"
    by (simp add: checkTokens_eq now_def env_defs session_defs)
  have stale: "\<not> storage_rejects (env_online 1600003600) (ticks stale_session) \<and>
               truthy (storedRefreshToken stale_session) \<and> truthy (storedAccount stale_session)"
    by (simp add: env_defs session_defs stored_defs truthy_def)
  define s2 where "s2 = snd (checkTokens (env_online 1600003600)
                                 (called (GetPassword SERVICE REFRESH_TOKEN_ACCOUNT) stale_session))"
  have ct2: "checkTokens (env_online 1600003600) (called (GetPassword SERVICE REFRESH_TOKEN_ACCOUNT) stale_session)
               = (Inr (), s2)"
    unfolding s2_def by (simp add: all_defs env_defs session_defs)
  have v2: "accessToken s2 = Some ''a2''" "storedRefreshToken s2 = Some ''r2''"
           "\<not> storage_rejects (env_online 1600003600) n" for n
    unfolding s2_def by (simp_all add: all_defs env_defs session_defs)
  have v1: "accessToken ?noacc = Some ''a1''" "storedRefreshToken ?noacc = Some ''r1''"
           "\<not> storage_rejects env_offline n" for n
    by (simp_all add: stored_defs env_defs session_defs)
  from token_getters_preconditions [of env_offline ?out True] out
  have c1: "fst (getAccessToken env_offline True ?out) = Inl NotLoggedIn \<and>
            fst (getRefreshToken env_offline True ?out) = Inl NotLoggedIn"
    by blast
  from token_getters_preconditions [of env_offline ?noacc True] noacc
  have c2: "fst (getAccessToken env_offline True ?noacc) = Inl NoAccountSelected \<and>
            fst (getRefreshToken env_offline True ?noacc) = Inl NoAccountSelected"
    by blast
  from token_getters_preconditions [of env_offline ?noacc False] noacc
  have c3: "fst (getAccessToken env_offline False ?noacc) = Inr (Some ''a1'') \<and>
            fst (getRefreshToken env_offline False ?noacc) = Inr (Some ''r1'')"
    by (simp add: ct1 v1)
  from token_getters_preconditions [of "env_online 1600003600" stale_session True] stale
  have c4: "fst (getAccessToken (env_online 1600003600) True stale_session) = Inr (Some ''a2'') \<and>
            fst (getRefreshToken (env_online 1600003600) True stale_session) = Inr (Some ''r2'')"
    by (simp add: ct2 v2)
  have "storage_rejects (env_offline\<lparr>storage_rejects := (\<lambda>n. n = 0)\<rparr>) (ticks fresh_session)"
    by (simp add: ticks_def session_defs)
  with token_getters_preconditions
         [of "env_offline\<lparr>storage_rejects := (\<lambda>n. n = 0)\<rparr>" fresh_session True]
  have c5: "fst (getAccessToken (env_offline\<lparr>storage_rejects := (\<lambda>n. n = 0)\<rparr>) True fresh_session)
              = Inl StorageError \<and>
            fst (getRefreshToken (env_offline\<lparr>storage_rejects := (\<lambda>n. n = 0)\<rparr>) True fresh_session)
              = Inl StorageError"
    by blast
  from c1 c2 c3 c4 c5 show ?thesis by simp
qed

text \<open>
  Claim C1, as the code has it. A call of \<open>getAccessToken\<close> or \<open>getRefreshToken\<close> passes the
  two checks (the secure store answers with a refresh token; an account is stored where
  one is required), finds \<open>expiration - now < 60\<close> and so starts a refresh exchange, and
  the exchange fails with whatever error \<open>e\<close>. Then both calls end the same way: the
  \<open>catch\<close> of \<open>refreshTokens\<close> runs \<open>logout\<close>. When the storage accepts the three deletes
  of that logout, the call raises \<open>NotLoggedIn\<close> with the access token, the expiry, the
  refresh token, the account id and the email all cleared, the deletes being the last
  calls made, and a following \<open>loggedIn\<close> answers false. When the storage rejects one of
  the deletes, the call raises that storage error instead (the in-memory token and expiry
  are cleared all the same).
\<close>

theorem refresh_failure_forces_logout:
  assumes "\<not> storage_rejects env (ticks s)"
      and "truthy (storedRefreshToken s)"
      and "accountRequired \<longrightarrow> truthy (storedAccount s)"
      and "expiration s - now env < 60"
      and "refreshExchange env (called (GetPassword SERVICE REFRESH_TOKEN_ACCOUNT) s) = (Inl e, s2)"
  shows "getRefreshToken env accountRequired s = getAccessToken env accountRequired s \<and>
    (accepts env (ticks s2) 3 \<longrightarrow>
       (\<exists>s'. getAccessToken env accountRequired s = (Inl NotLoggedIn, s') \<and>
             accessToken s' = None \<and> expiration s' = 0 \<and> storedRefreshToken s' = None \<and>
             storedAccount s' = None \<and> storedEmail s' = None \<and>
             trace s' = trace s2 @ [MementoUpdate ACCOUNT_KEY None, MementoUpdate EMAIL_KEY None,
                                    DeletePassword SERVICE REFRESH_TOKEN_ACCOUNT] \<and>
             (\<not> storage_rejects env (ticks s') \<longrightarrow> fst (loggedIn env s') = Inr False))) \<and>
    (\<not> accepts env (ticks s2) 3 \<longrightarrow>
       (\<exists>s'. getAccessToken env accountRequired s = (Inl StorageError, s') \<and>
             accessToken s' = None \<and> expiration s' = 0))"
proof -
  let ?s1 = "called (GetPassword SERVICE REFRESH_TOKEN_ACCOUNT) s"
  have ct: "checkTokens env ?s1 =
     (case logout env s2 of
        (Inl e', s'') \<Rightarrow> (Inl e', s'')
      | (Inr _, s'') \<Rightarrow> (Inl NotLoggedIn, s''))"
    using assms(4,5) by (simp add: checkTokens_eq refreshTokens_eq)
  have same: "getRefreshToken env accountRequired s = getAccessToken env accountRequired s"
    using assms(1-3) ct
    by (auto simp: getAccessToken_eq getRefreshToken_eq loggedIn_eq split: prod.splits sum.splits)
  have ga: "getAccessToken env accountRequired s =
     (case logout env s2 of
        (Inl e', s'') \<Rightarrow> (Inl e', emit_changed s'')
      | (Inr _, s'') \<Rightarrow> (Inl NotLoggedIn, emit_changed s''))"
    using assms(1-3) ct
    by (auto simp: getAccessToken_eq loggedIn_eq split: prod.splits sum.splits)
  have yes: "accepts env (ticks s2) 3 \<Longrightarrow> ?thesis"
    using same by (simp add: ga logout_accepted loggedIn_eq stored_defs truthy_def ticks_def)
  have no: "\<not> accepts env (ticks s2) 3 \<Longrightarrow> ?thesis"
    using same logout_always [OF surjective_pairing, of env s2]
      logout_rejected [OF _ surjective_pairing, of env s2]
    by (auto simp: ga split: prod.splits sum.splits)
  from yes no show ?thesis by blast
qed

text \<open>
  The theorem at a session whose token has expired, with no network, so that the exchange
  fails with a transport error: where the storage accepts the deletes the session ends
  logged out, and where it rejects the first of them the call raises the storage error.
\<close>

theorem refresh_failure_forces_logout_witness:
  "fst (getAccessToken env_offline True stale_session) = Inl NotLoggedIn \<and>
   fst (getRefreshToken env_offline True stale_session) = Inl NotLoggedIn \<and>
   storedRefreshToken (snd (getAccessToken env_offline True stale_session)) = None \<and>
   storedAccount (snd (getAccessToken env_offline True stale_session)) = None \<and>
   accessToken (snd (getAccessToken env_offline True stale_session)) = None \<and>
   fst (loggedIn env_offline (snd (getAccessToken env_offline True stale_session))) = Inr False \<and>
   fst (getAccessToken (env_offline\<lparr>storage_rejects := (\<lambda>n. n = 3)\<rparr>) True stale_session)
     = Inl StorageError \<and>
   fst (getRefreshToken (env_offline\<lparr>storage_rejects := (\<lambda>n. n = 3)\<rparr>) True stale_session)
     = Inl StorageError"
proof -
  let ?s1 = "called (GetPassword SERVICE REFRESH_TOKEN_ACCOUNT) stale_session"
  let ?env = "env_offline\<lparr>storage_rejects := (\<lambda>n. n = 3)\<rparr>"
  have h1: "\<not> storage_rejects env_offline (ticks stale_session)"
           "\<not> storage_rejects ?env (ticks stale_session)"
    by (simp_all add: env_offline_def ticks_def session_defs)
  have h2: "truthy (storedRefreshToken stale_session)"
    by (simp add: session_defs stored_defs truthy_def)
  have h3: "True \<longrightarrow> truthy (storedAccount stale_session)"
    by (simp add: session_defs stored_defs truthy_def)
  have h4: "expiration stale_session - now env_offline < 60"
           "expiration stale_session - now ?env < 60"
    by (simp_all add: session_defs env_offline_def now_def)
  have h5: "refreshExchange env_offline ?s1
              = (Inl TransportError, snd (refreshExchange env_offline ?s1))"
           "refreshExchange ?env ?s1 = (Inl TransportError, snd (refreshExchange ?env ?s1))"
    by (simp_all add: all_defs session_defs env_offline_def)
  have rej: "\<not> accepts ?env (ticks (snd (refreshExchange ?env ?s1))) 3"
    by (simp add: accepts_3 all_defs session_defs env_offline_def)
  have nr: "\<not> storage_rejects env_offline n" for n
    by (simp add: env_offline_def)
  from refresh_failure_forces_logout [OF h1(1) h2 h3 h4(1) h5(1)] nr
  have a: "fst (getAccessToken env_offline True stale_session) = Inl NotLoggedIn \<and>
   fst (getRefreshToken env_offline True stale_session) = Inl NotLoggedIn \<and>
   storedRefreshToken (snd (getAccessToken env_offline True stale_session)) = None \<and>
   storedAccount (snd (getAccessToken env_offline True stale_session)) = None \<and>
   accessToken (snd (getAccessToken env_offline True stale_session)) = None \<and>
   fst (loggedIn env_offline (snd (getAccessToken env_offline True stale_session))) = Inr False"
    by auto
  from refresh_failure_forces_logout [OF h1(2) h2 h3 h4(2) h5(2)] rej
  have b: "fst (getAccessToken ?env True stale_session) = Inl StorageError \<and>
           fst (getRefreshToken ?env True stale_session) = Inl StorageError"
    by auto
  from a b show ?thesis by simp
qed

text \<open>
  Claim C1 as the specification states it fails where the storage rejects a delete of the
  forced logout, here the last one, that of the refresh token in the secure store (the
  sixth call: after the two reads of the refresh token, the rejected discovery request and
  the deletes of the account id and of the email). The call raises the storage error, not
  \<open>NotLoggedIn\<close>; the refresh token stays stored and a following \<open>loggedIn\<close> answers true.
\<close>

theorem refresh_failure_rejected_delete_counterexample:
  "fst (getAccessToken (env_offline\<lparr>storage_rejects := (\<lambda>n. n = 5)\<rparr>) True stale_session)
     = Inl StorageError \<and>
   trace (snd (getAccessToken (env_offline\<lparr>storage_rejects := (\<lambda>n. n = 5)\<rparr>) True stale_session))
     = [GetPassword SERVICE REFRESH_TOKEN_ACCOUNT, GetPassword SERVICE REFRESH_TOKEN_ACCOUNT,
        HttpGet OPENID_URL None, MementoUpdate ACCOUNT_KEY None, MementoUpdate EMAIL_KEY None,
        DeletePassword SERVICE REFRESH_TOKEN_ACCOUNT] \<and>
   storedRefreshToken
     (snd (getAccessToken (env_offline\<lparr>storage_rejects := (\<lambda>n. n = 5)\<rparr>) True stale_session))
     = Some ''r1'' \<and>
   fst (loggedIn (env_offline\<lparr>storage_rejects := (\<lambda>n. n = 5)\<rparr>)
         (snd (getAccessToken (env_offline\<lparr>storage_rejects := (\<lambda>n. n = 5)\<rparr>) True
                 stale_session)))
     = Inr True"
  by (simp add: all_defs stale_session_def fresh_session_def env_offline_def)

text \<open>
  Claim C2, as the code has it. Whenever \<open>getAccessToken\<close> returns a token: if
  \<open>expiration - now\<close> was at least 60 at the freshness check, the token is the one held
  in memory, its expiry is unchanged and no exchange was made (the only call is the read
  of the refresh token); if \<open>expiration - now\<close> was below 60, a refresh exchange with the
  stored refresh token and account id was made first, and the token and the expiry are
  those of the provider's response. The expiry of the response is not compared with the
  clock.
\<close>

theorem getAccessToken_margin:
  assumes "getAccessToken env accountRequired s = (Inr token, s')"
  shows "(60 \<le> expiration s - now env \<longrightarrow>
            token = accessToken s \<and> accessToken s' = accessToken s \<and>
            expiration s' = expiration s \<and>
            trace s' = trace s @ [GetPassword SERVICE REFRESH_TOKEN_ACCOUNT]) \<and>
         (expiration s - now env < 60 \<longrightarrow>
            (\<exists>endpoint refreshToken response.
               storedRefreshToken s = Some refreshToken \<and>
               rp_post env (ticks s + 3) endpoint (RefreshForm (storedAccount s) refreshToken)
                 = Resolved response \<and>
               starts_with_2 (statusCode response) \<and>
               token = access_token (body response) \<and>
               accessToken s' = access_token (body response) \<and>
               expiration s' = expiration_body (body response) \<and>
               trace s' = trace s @
                 [GetPassword SERVICE REFRESH_TOKEN_ACCOUNT,
                  GetPassword SERVICE REFRESH_TOKEN_ACCOUNT,
                  HttpGet OPENID_URL None,
                  HttpPost endpoint (RefreshForm (storedAccount s) refreshToken),
                  SetPassword SERVICE REFRESH_TOKEN_ACCOUNT (refresh_token (body response))]))"
proof -
  let ?s1 = "called (GetPassword SERVICE REFRESH_TOKEN_ACCOUNT) s"
  from assms obtain s2 where
    ct: "checkTokens env ?s1 = (Inr (), s2)" and tok: "token = accessToken s2"
    and s': "s' = emit_changed s2"
    by (auto simp: getAccessToken_eq loggedIn_eq split: prod.splits sum.splits if_splits)
  show ?thesis
  proof (cases "expiration s - now env < 60")
    case False
    with ct have "s2 = ?s1" by (simp add: checkTokens_eq)
    with False tok s' show ?thesis by simp
  next
    case True
    with ct have "refreshExchange env ?s1 = (Inr (), s2)"
      by (auto simp: checkTokens_eq refreshTokens_eq split: prod.splits sum.splits)
    from refreshExchange_ok [OF this] True tok s' show ?thesis
      by (auto simp: numeral_3_eq_3)
  qed
qed

text \<open>
  The theorem at a fresh session (no exchange) and at a session whose token has expired
  (one exchange, the token of the response is returned).
\<close>

theorem getAccessToken_margin_witness:
  "60 \<le> expiration fresh_session - now env_offline \<and>
   fst (getAccessToken env_offline True fresh_session) = Inr (Some ''a1'') \<and>
   trace (snd (getAccessToken env_offline True fresh_session))
     = [GetPassword SERVICE REFRESH_TOKEN_ACCOUNT] \<and>
   expiration stale_session - now (env_online 1600003600) < 60 \<and>
   fst (getAccessToken (env_online 1600003600) True stale_session) = Inr (Some ''a2'') \<and>
   expiration (snd (getAccessToken (env_online 1600003600) True stale_session)) = 1600003600"
proof -
  have fresh: "getAccessToken env_offline True fresh_session
                 = (Inr (Some ''a1''), snd (getAccessToken env_offline True fresh_session))"
    by (simp add: all_defs session_defs env_defs)
  have stale: "getAccessToken (env_online 1600003600) True stale_session
                 = (Inr (Some ''a2''), snd (getAccessToken (env_online 1600003600) True stale_session))"
    by (simp add: all_defs session_defs env_defs)
  have f: "60 \<le> expiration fresh_session - now env_offline"
    by (simp add: session_defs env_defs now_def)
  have st: "expiration stale_session - now (env_online 1600003600) < 60"
    by (simp add: session_defs env_defs now_def)
  have post: "rp_post (env_online 1600003600) n url frm = Resolved (token_ok 1600003600)" for n url frm
    by (simp add: env_defs)
  have a1: "fst (getAccessToken env_offline True fresh_session) = Inr (Some ''a1'')"
    using fresh by (metis fst_conv)
  have a2: "fst (getAccessToken (env_online 1600003600) True stale_session) = Inr (Some ''a2'')"
    using stale by (metis fst_conv)
  from getAccessToken_margin [OF fresh] f
  have t1: "trace (snd (getAccessToken env_offline True fresh_session))
              = trace fresh_session @ [GetPassword SERVICE REFRESH_TOKEN_ACCOUNT]"
    by blast
  from getAccessToken_margin [OF stale] st post
  have e2: "expiration (snd (getAccessToken (env_online 1600003600) True stale_session))
              = expiration_body (body (token_ok 1600003600))"
    by auto
  from f st a1 a2 t1 e2 show ?thesis
    by (simp add: fresh_session_def token_ok_def)
qed

text \<open>
  Claim C2 as the specification states it fails for a refreshed token: the clock reads
  1600000000 seconds, the provider answers the refresh with a token that expires at
  1600000030, and \<open>getAccessToken\<close> returns that token, with 30 seconds left.
\<close>

theorem refreshed_token_margin_counterexample:
  "fst (getAccessToken (env_online 1600000030) True stale_session) = Inr (Some ''a2'') \<and>
   now (env_online 1600000030) = 1600000000 \<and>
   expiration (snd (getAccessToken (env_online 1600000030) True stale_session)) = 1600000030 \<and>
   expiration (snd (getAccessToken (env_online 1600000030) True stale_session)) - now (env_online 1600000030) < 60"
  by (simp add: all_defs session_defs env_defs)

section \<open>Primary logins\<close>



lemma loginWithSSO_eq:
  "loginWithSSO env cb s =
     (case getPasscodeEndpoint env s of
        (Inl e, s1) \<Rightarrow> (Inl e, emit_changed s1)
      | (Inr endpoint, s1) \<Rightarrow>
          (case cb endpoint of
             Rejected \<Rightarrow> (Inl CallbackError, emit_changed (called (PasscodeCallback endpoint) s1))
           | Resolved passcode \<Rightarrow>
               if \<not> truthy passcode
               then (Inr False, emit_changed (called (PasscodeCallback endpoint) s1))
               else
                 (case loginCommon env (PasscodeForm (the passcode)) False
                         (called (PasscodeCallback endpoint) s1) of
                    (Inl e, s') \<Rightarrow> (Inl e, emit_changed s')
                  | (Inr u, s') \<Rightarrow> (Inr True, emit_changed s'))))"
  by (auto simp: loginWithSSO_def call_cb_def try_finally_def await_def return_def truthy_def
           split: prod.splits sum.splits promise.splits option.splits)




section \<open>The account listing\<close>

lemma fetchAccounts_frame_aux:
  assumes "fetchAccounts env bearer url collected s = Some y"
  shows "accessToken (snd y) = accessToken s \<and> expiration (snd y) = expiration s \<and>
     globalState (snd y) = globalState s \<and> secureStore (snd y) = secureStore s \<and>
     emitted (snd y) = emitted s"
proof (rule fetchAccounts.raw_induct
         [where P = "\<lambda>env bearer url collected s y.
            accessToken (snd y) = accessToken s \<and> expiration (snd y) = expiration s \<and>
            globalState (snd y) = globalState s \<and> secureStore (snd y) = secureStore s \<and>
            emitted (snd y) = emitted s",
          OF _ assms], goal_cases)
  case (1 fetch env bearer url collected s y)
  show ?case
  proof (cases "rp_get_accounts env (ticks s) url bearer")
    case Rejected
    with 1(2) show ?thesis by auto
  next
    case (Resolved response)
    show ?thesis
    proof (cases "truthy (next_url response)")
      case False
      with Resolved 1(2) show ?thesis
        by (auto simp: truthy_def split: option.splits if_splits)
    next
      case True
      then obtain next_page where np: "next_url response = Some next_page" "next_page \<noteq> []"
        by (auto simp: truthy_def split: option.splits)
      show ?thesis
      proof (cases "new_URL env next_page")
        case None
        with Resolved np 1(2) show ?thesis by auto
      next
        case (Some href)
        with Resolved np 1(2)
        have "fetch env bearer href (collected @ resources response)
                (called (HttpGet url bearer) s) = Some y"
          by simp
        from 1(1) [OF this] show ?thesis by simp
      qed
    qed
  qed
qed

lemma fetchAccounts_frame:
  "fetchAccounts env bearer url collected s = Some (r, s') \<Longrightarrow>
     accessToken s' = accessToken s \<and> expiration s' = expiration s \<and>
     globalState s' = globalState s \<and> secureStore s' = secureStore s \<and>
     emitted s' = emitted s"
  using fetchAccounts_frame_aux [of env bearer url collected s "(r, s')"] by simp

lemma fetchAccounts_trace_aux:
  assumes "fetchAccounts env bearer url collected s = Some y"
  shows "\<exists>rest. trace (snd y) = trace s @ rest \<and> filter is_chooser_call rest = []"
proof (rule fetchAccounts.raw_induct
         [where P = "\<lambda>env bearer url collected s y.
            \<exists>rest. trace (snd y) = trace s @ rest \<and> filter is_chooser_call rest = []",
          OF _ assms], goal_cases)
  case (1 fetch env bearer url collected s y)
  show ?case
  proof (cases "rp_get_accounts env (ticks s) url bearer")
    case Rejected
    with 1(2) show ?thesis by (auto simp: is_chooser_call_def)
  next
    case (Resolved response)
    show ?thesis
    proof (cases "truthy (next_url response)")
      case False
      with Resolved 1(2) show ?thesis
        by (auto simp: truthy_def is_chooser_call_def split: option.splits if_splits)
    next
      case True
      then obtain next_page where np: "next_url response = Some next_page" "next_page \<noteq> []"
        by (auto simp: truthy_def split: option.splits)
      show ?thesis
      proof (cases "new_URL env next_page")
        case None
        with Resolved np 1(2) show ?thesis by (auto simp: is_chooser_call_def)
      next
        case (Some href)
        with Resolved np 1(2)
        have "fetch env bearer href (collected @ resources response)
                (called (HttpGet url bearer) s) = Some y"
          by simp
        from 1(1) [OF this] show ?thesis by (auto simp: is_chooser_call_def)
      qed
    qed
  qed
qed

lemma fetchAccounts_trace:
  "fetchAccounts env bearer url collected s = Some (r, s') \<Longrightarrow>
     \<exists>rest. trace s' = trace s @ rest \<and> filter is_chooser_call rest = []"
  using fetchAccounts_trace_aux [of env bearer url collected s "(r, s')"] by simp

lemma fetchAccounts_listing:
  "listing env bearer url (ticks s) pages \<Longrightarrow>
     \<exists>s'. fetchAccounts env bearer url collected s
             = Some (Inr (collected @ concat (map resources pages)), s') \<and>
          ticks s' = ticks s + length pages"
proof (induction pages arbitrary: url collected s)
  case Nil
  then show ?case by simp
next
  case (Cons page later)
  show ?case
  proof (cases later)
    case Nil
    with Cons.prems show ?thesis
      by (subst fetchAccounts.simps) (auto simp: truthy_def split: option.splits)
  next
    case (Cons q qs)
    with Cons.prems obtain next_page href where
      get: "rp_get_accounts env (ticks s) url bearer = Resolved page"
      and np: "next_url page = Some next_page" "next_page \<noteq> []"
      and href: "new_URL env next_page = Some href"
      and rest: "listing env bearer href (Suc (ticks s)) later"
      by (auto split: option.splits)
    from rest have "listing env bearer href (ticks (called (HttpGet url bearer) s)) later"
      by simp
    from Cons.IH [OF this, of "collected @ resources page"]
    obtain s' where
      "fetchAccounts env bearer href (collected @ resources page) (called (HttpGet url bearer) s)
         = Some (Inr ((collected @ resources page) @ concat (map resources later)), s')"
      and "ticks s' = ticks (called (HttpGet url bearer) s) + length later"
      by blast
    with get np href show ?thesis
      by (subst fetchAccounts.simps) simp
  qed
qed

section \<open>Account selection\<close>

lemma selectAccount_fetched:
  assumes "getAccessToken env False s = (Inr bearer, s1)"
      and "fetchAccounts env bearer ACCOUNTS_URL [] s1 = Some (Inr collected, s2)"
  shows "selectAccount env cb s =
           Some (fst (chooseAccount env cb collected s2),
                 emit_changed (snd (chooseAccount env cb collected s2)))"
  using assms by (simp add: selectAccount_def split: prod.splits)

lemma chooseAccount_single:
  "chooseAccount env cb [only] s = persistAccount env (to_account only) s"
  by (simp add: chooseAccount_def await_def return_def)

lemma chooseAccount_many:
  assumes "length collected \<noteq> 1"
  shows "chooseAccount env cb collected s =
     (case cb (map to_account collected) of
        Rejected \<Rightarrow> (Inl CallbackError, called (AccountCallback (map to_account collected)) s)
      | Resolved None \<Rightarrow> (Inr False, called (AccountCallback (map to_account collected)) s)
      | Resolved (Some selected) \<Rightarrow>
          persistAccount env selected (called (AccountCallback (map to_account collected)) s))"
proof (cases collected)
  case Nil
  then show ?thesis
    by (simp add: chooseAccount_def call_cb_def await_def return_def
             split: promise.splits option.splits)
next
  case (Cons x xs)
  with assms obtain y ys where "xs = y # ys" by (cases xs) auto
  with Cons show ?thesis
    by (simp add: chooseAccount_def call_cb_def await_def return_def
             split: promise.splits option.splits)
qed

lemma logout_trace:
  assumes "logout env s = (r, s')"
  shows "\<exists>rest. trace s' = trace s @ rest \<and> filter is_chooser_call rest = [] \<and>
           emitted s' = Suc (emitted s) \<and> (r = Inr () \<or> r = Inl StorageError)"
  using assms
  by (auto simp: logout_def store_defs cmd_defs is_chooser_call_def split: if_splits)

lemma loginCommon_trace:
  assumes "loginCommon env frm refresh s = (r, s')"
  shows "\<exists>rest. trace s' = trace s @ rest \<and> filter is_chooser_call rest = []"
  using assms
  by (auto simp: loginCommon_def http_defs store_defs cmd_defs is_chooser_call_def
           split: promise.splits option.splits if_splits)

lemma refreshExchange_trace:
  assumes "refreshExchange env s = (r, s')"
  shows "\<exists>rest. trace s' = trace s @ rest \<and> filter is_chooser_call rest = []"
proof -
  let ?s1 = "called (GetPassword SERVICE REFRESH_TOKEN_ACCOUNT) s"
  from assms consider
      "s' = ?s1"
    | token where "loginCommon env (RefreshForm (storedAccount s) token) True ?s1 = (r, s')"
    by (auto simp: refreshExchange_def store_defs cmd_defs stored_defs
             split: option.splits if_splits)
  then show ?thesis
  proof cases
    case 1
    then show ?thesis by (simp add: is_chooser_call_def)
  next
    case 2
    from loginCommon_trace [OF this] show ?thesis
      by (auto simp: is_chooser_call_def)
  qed
qed

lemma refreshTokens_cases:
  assumes "refreshTokens env s = (r, s')"
  shows "(\<exists>rest. trace s' = trace s @ rest \<and> filter is_chooser_call rest = []) \<and>
         globalState s' = globalState s \<and> emitted s' = emitted s \<and> r = Inr () \<and>
           refreshExchange env s = (Inr (), s')
       \<or> (\<exists>rest. trace s' = trace s @ rest \<and> filter is_chooser_call rest = []) \<and>
         emitted s' = Suc (emitted s) \<and> accessToken s' = None \<and> expiration s' = 0 \<and>
         (r = Inl StorageError \<or>
          r = Inl NotLoggedIn \<and> storedAccount s' = None \<and> storedEmail s' = None \<and>
            storedRefreshToken s' = None)"
proof (cases "refreshExchange env s")
  case (Pair x s1)
  show ?thesis
  proof (cases x)
    case (Inr u)
    with Pair assms have "s' = s1" "r = Inr ()"
      by (simp_all add: refreshTokens_eq)
    with Pair Inr refreshExchange_trace [of env s x s1] refreshExchange_frame [of env s x s1]
    show ?thesis by simp
  next
    case (Inl e)
    obtain r2 s2 where lo: "logout env s1 = (r2, s2)" by (cases "logout env s1")
    with Pair Inl assms have s': "s' = s2"
      and r: "r = (case r2 of Inl e' \<Rightarrow> Inl e' | Inr u \<Rightarrow> Inl NotLoggedIn)"
      by (auto simp: refreshTokens_eq split: sum.splits)
    from refreshExchange_trace [OF Pair] obtain rest1 where
      t1: "trace s1 = trace s @ rest1" "filter is_chooser_call rest1 = []" by blast
    from logout_trace [OF lo] obtain rest2 where
      t2: "trace s2 = trace s1 @ rest2" "filter is_chooser_call rest2 = []"
        "emitted s2 = Suc (emitted s1)" "r2 = Inr () \<or> r2 = Inl StorageError" by blast
    from refreshExchange_frame [OF Pair] have e1: "emitted s1 = emitted s" by simp
    from logout_always [OF lo] have c: "accessToken s2 = None" "expiration s2 = 0" by simp_all
    have tr: "\<exists>rest. trace s' = trace s @ rest \<and> filter is_chooser_call rest = []"
      using t1 t2 s' by simp
    show ?thesis
    proof (cases r2)
      case (Inl e')
      with t2(4) r have "r = Inl StorageError" by simp
      with tr t2(3) e1 c s' show ?thesis by simp
    next
      case (Inr u)
      with r have "r = Inl NotLoggedIn" by simp
      moreover from lo Inr logout_ok [of env s1 u s2]
      have "storedAccount s2 = None \<and> storedEmail s2 = None \<and> storedRefreshToken s2 = None"
        by simp
      ultimately show ?thesis using tr t2(3) e1 c s' by simp
    qed
  qed
qed

lemma getAccessToken_trace:
  assumes "getAccessToken env accountRequired s = (r, s')"
  shows "\<exists>rest. trace s' = trace s @ rest \<and> filter is_chooser_call rest = []"
proof -
  let ?s1 = "called (GetPassword SERVICE REFRESH_TOKEN_ACCOUNT) s"
  from assms consider "s' = emit_changed ?s1"
    | x s2 where "refreshTokens env ?s1 = (x, s2)" "s' = emit_changed s2"
    by (auto simp: getAccessToken_eq loggedIn_eq checkTokens_eq
             split: prod.splits sum.splits if_splits)
  then show ?thesis
  proof cases
    case 1
    then show ?thesis by (simp add: is_chooser_call_def)
  next
    case 2
    from refreshTokens_cases [OF 2(1)] obtain rest where
      "trace s2 = trace ?s1 @ rest" "filter is_chooser_call rest = []"
      by blast
    with 2(2) show ?thesis by (simp add: is_chooser_call_def)
  qed
qed

lemma persistAccount_cases:
  assumes "persistAccount env selected s = (r, s')"
  shows "(\<exists>rest. trace s' = trace s @ rest \<and> filter is_chooser_call rest = []) \<and>
    (r = Inr True \<and> emitted s' = emitted s \<and>
       storedAccount s' = Some (guid selected) \<and> storedEmail s' = Some (email selected) \<and>
       (\<exists>endpoint token response.
          rp_post env (ticks s + 4) endpoint (RefreshForm (Some (guid selected)) token)
            = Resolved response \<and>
          starts_with_2 (statusCode response) \<and>
          trace s' = trace s @
            [MementoUpdate ACCOUNT_KEY (Some (guid selected)),
             MementoUpdate EMAIL_KEY (Some (email selected)),
             GetPassword SERVICE REFRESH_TOKEN_ACCOUNT,
             HttpGet OPENID_URL None,
             HttpPost endpoint (RefreshForm (Some (guid selected)) token),
             SetPassword SERVICE REFRESH_TOKEN_ACCOUNT (refresh_token (body response))])
     \<or> r = Inl StorageError \<and> (emitted s' = emitted s \<or> emitted s' = Suc (emitted s))
     \<or> r = Inl NotLoggedIn \<and> emitted s' = Suc (emitted s) \<and>
         accessToken s' = None \<and> expiration s' = 0 \<and> storedAccount s' = None \<and>
         storedEmail s' = None \<and> storedRefreshToken s' = None)"
proof (cases "storage_rejects env (ticks s) \<or> storage_rejects env (Suc (ticks s))")
  case True
  with assms show ?thesis
    by (auto simp: persistAccount_def store_defs cmd_defs is_chooser_call_def split: if_splits)
next
  case False
  let ?s3 = "called (MementoUpdate EMAIL_KEY (Some (email selected)))
               (called (MementoUpdate ACCOUNT_KEY (Some (guid selected)))
                  (s\<lparr>globalState := (globalState s)(ACCOUNT_KEY \<mapsto> guid selected)\<rparr>)
                \<lparr>globalState := (globalState s)(ACCOUNT_KEY \<mapsto> guid selected,
                                                 EMAIL_KEY \<mapsto> email selected)\<rparr>)"
  obtain r3 s4 where rt: "refreshTokens env ?s3 = (r3, s4)" by (cases "refreshTokens env ?s3")
  with False assms have s': "s' = s4"
    and r: "r = (case r3 of Inl e \<Rightarrow> Inl e | Inr u \<Rightarrow> Inr True)"
    by (auto simp: persistAccount_def store_defs cmd_defs split: sum.splits)
  have t3: "trace ?s3 = trace s @ [MementoUpdate ACCOUNT_KEY (Some (guid selected)),
                                  MementoUpdate EMAIL_KEY (Some (email selected))]"
    and e3: "emitted ?s3 = emitted s"
    and g3: "storedAccount ?s3 = Some (guid selected)" "storedEmail ?s3 = Some (email selected)"
    and k3: "ticks ?s3 = ticks s + 2"
    by (simp_all add: cmd_defs stored_defs)
  from refreshTokens_cases [OF rt] consider
      (ok) rest where "trace s4 = trace ?s3 @ rest" "filter is_chooser_call rest = []"
        "globalState s4 = globalState ?s3" "emitted s4 = emitted ?s3" "r3 = Inr ()"
        "refreshExchange env ?s3 = (Inr (), s4)"
    | (failed) rest where "trace s4 = trace ?s3 @ rest" "filter is_chooser_call rest = []"
        "emitted s4 = Suc (emitted ?s3)" "accessToken s4 = None" "expiration s4 = 0"
        "r3 = Inl StorageError \<or>
         r3 = Inl NotLoggedIn \<and> storedAccount s4 = None \<and> storedEmail s4 = None \<and>
           storedRefreshToken s4 = None"
    by blast
  then show ?thesis
  proof cases
    case ok
    from refreshExchange_ok [OF ok(6)] g3 k3 t3 obtain endpoint token response where
      "rp_post env (ticks s + 4) endpoint (RefreshForm (Some (guid selected)) token)
         = Resolved response"
      "starts_with_2 (statusCode response)"
      "trace s4 = trace s @
            [MementoUpdate ACCOUNT_KEY (Some (guid selected)),
             MementoUpdate EMAIL_KEY (Some (email selected)),
             GetPassword SERVICE REFRESH_TOKEN_ACCOUNT,
             HttpGet OPENID_URL None,
             HttpPost endpoint (RefreshForm (Some (guid selected)) token),
             SetPassword SERVICE REFRESH_TOKEN_ACCOUNT (refresh_token (body response))]"
      by (auto simp: numeral_eq_Suc)
    moreover have "storedAccount s4 = Some (guid selected)" "storedEmail s4 = Some (email selected)"
      using ok(3) g3 by (simp_all add: stored_defs)
    moreover have "\<exists>rest. trace s' = trace s @ rest \<and> filter is_chooser_call rest = []"
      using ok(1,2) t3 s' by (simp add: is_chooser_call_def)
    ultimately show ?thesis
      using ok(4,5) e3 r s' by auto
  next
    case failed
    have "\<exists>rest. trace s' = trace s @ rest \<and> filter is_chooser_call rest = []"
      using failed(1,2) t3 s' by (simp add: is_chooser_call_def)
    then show ?thesis
      using failed(3-6) e3 r s' by auto
  qed
qed

lemma persistAccount_trace:
  assumes "persistAccount env a s = (r, s')"
  shows "\<exists>rest. trace s' = trace s @ rest \<and> filter is_chooser_call rest = []"
  using persistAccount_cases [OF assms] by blast

lemma persisted_obs [simp]:
  "accessToken (persisted a s) = accessToken s" "expiration (persisted a s) = expiration s"
  "secureStore (persisted a s) = secureStore s" "emitted (persisted a s) = emitted s"
  "storedAccount (persisted a s) = Some (guid a)" "storedEmail (persisted a s) = Some (email a)"
  "storedRefreshToken (persisted a s) = storedRefreshToken s"
  "ticks (persisted a s) = ticks s + 2"
  "trace (persisted a s) = trace s @ [MementoUpdate ACCOUNT_KEY (Some (guid a)),
                                      MementoUpdate EMAIL_KEY (Some (email a))]"
  by (simp_all add: persisted_def stored_defs ticks_def)

lemma persistAccount_eq:
  "persistAccount env a s =
     (if storage_rejects env (ticks s)
      then (Inl StorageError, called (MementoUpdate ACCOUNT_KEY (Some (guid a))) s)
      else if storage_rejects env (Suc (ticks s))
      then (Inl StorageError,
            called (MementoUpdate EMAIL_KEY (Some (email a)))
              (called (MementoUpdate ACCOUNT_KEY (Some (guid a)))
                 (s\<lparr>globalState := (globalState s)(ACCOUNT_KEY \<mapsto> guid a)\<rparr>)))
      else (case refreshTokens env (persisted a s) of
              (Inl e, s') \<Rightarrow> (Inl e, s')
            | (Inr u, s') \<Rightarrow> (Inr True, s')))"
  by (auto simp: persistAccount_def persisted_def store_defs cmd_defs
           split: prod.splits sum.splits)

lemma getAccessToken_ok_frame:
  assumes "getAccessToken env accountRequired s = (Inr token, s')"
  shows "globalState s' = globalState s \<and> emitted s' = Suc (emitted s) \<and>
         (60 \<le> expiration s - now env \<longrightarrow>
            accessToken s' = accessToken s \<and> expiration s' = expiration s \<and>
            secureStore s' = secureStore s)"
proof -
  let ?s1 = "called (GetPassword SERVICE REFRESH_TOKEN_ACCOUNT) s"
  from assms obtain s2 where
    ct: "checkTokens env ?s1 = (Inr (), s2)" and s': "s' = emit_changed s2"
    by (auto simp: getAccessToken_eq loggedIn_eq split: prod.splits sum.splits if_splits)
  show ?thesis
  proof (cases "expiration s - now env < 60")
    case False
    with ct have "s2 = ?s1" by (simp add: checkTokens_eq)
    with False s' show ?thesis by simp
  next
    case True
    with ct have "refreshExchange env ?s1 = (Inr (), s2)"
      by (auto simp: checkTokens_eq refreshTokens_eq split: prod.splits sum.splits)
    from refreshExchange_frame [OF this] True s' show ?thesis by simp
  qed
qed

lemma getAccessToken_refreshed:
  assumes "getAccessToken env accountRequired s = (Inr token, s')"
      and "expiration s - now env < 60"
  shows "\<exists>endpoint refreshToken response.
           storedRefreshToken s = Some refreshToken \<and>
           rp_post env (ticks s + 3) endpoint (RefreshForm (storedAccount s) refreshToken)
             = Resolved response \<and>
           starts_with_2 (statusCode response) \<and>
           accessToken s' = access_token (body response) \<and>
           expiration s' = expiration_body (body response) \<and>
           storedRefreshToken s' = Some (refresh_token (body response))"
proof -
  let ?s1 = "called (GetPassword SERVICE REFRESH_TOKEN_ACCOUNT) s"
  from assms(1) obtain s2 where
    ct: "checkTokens env ?s1 = (Inr (), s2)" and s': "s' = emit_changed s2"
    by (auto simp: getAccessToken_eq loggedIn_eq split: prod.splits sum.splits if_splits)
  from ct assms(2) have "refreshExchange env ?s1 = (Inr (), s2)"
    by (auto simp: checkTokens_eq refreshTokens_eq split: prod.splits sum.splits)
  from refreshExchange_ok [OF this] s' show ?thesis
    by (auto simp: numeral_3_eq_3)
qed

lemma selectAccount_false:
  assumes "selectAccount env account_cb s = Some (Inr False, s'')"
  shows "\<exists>bearer t1 collected t2.
           getAccessToken env False s = (Inr bearer, t1) \<and>
           fetchAccounts env bearer ACCOUNTS_URL [] t1 = Some (Inr collected, t2) \<and>
           s'' = emit_changed (called (AccountCallback (map to_account collected)) t2)"
proof -
  from assms obtain b u1 col u2 u3 where
    ga: "getAccessToken env False s = (Inr b, u1)"
    and fa: "fetchAccounts env b ACCOUNTS_URL [] u1 = Some (Inr col, u2)"
    and ca: "chooseAccount env account_cb col u2 = (Inr False, u3)"
    and s'': "s'' = emit_changed u3"
    by (auto simp: selectAccount_def split: prod.splits sum.splits option.splits)
  have "u3 = called (AccountCallback (map to_account col)) u2"
  proof (cases "length col = 1")
    case True
    then obtain only where "col = [only]" by (cases col) auto
    with ca persistAccount_cases [of env "to_account only" u2 "Inr False" u3]
    show ?thesis by (simp add: chooseAccount_single)
  next
    case False
    with ca show ?thesis
      using persistAccount_cases [of env _ "called (AccountCallback (map to_account col)) u2"
                                    "Inr False" u3]
      by (auto simp: chooseAccount_many split: promise.splits option.splits)
  qed
  with ga fa s'' show ?thesis by blast
qed

lemma getPasscodeEndpoint_frame:
  "getPasscodeEndpoint env s = (r, s1) \<Longrightarrow>
     accessToken s1 = accessToken s \<and> expiration s1 = expiration s \<and>
     globalState s1 = globalState s \<and> secureStore s1 = secureStore s \<and>
     emitted s1 = emitted s \<and> trace s1 = trace s @ [HttpGet OPENID_URL None]"
  by (auto simp: http_defs cmd_defs split: promise.splits option.splits)

lemma three_pages_listing: "listing (env_online x) bearer ACCOUNTS_URL n three_pages"
  by (simp add: three_pages_def env_defs serve_pages_def ACCOUNTS_URL_def page2_url_def
                page3_url_def truthy_def)

lemma three_pages_resources:
  "concat (map resources three_pages)
     = [acct ''1'', acct ''2'', acct ''3'', acct ''4'', acct ''5'', acct ''6'']"
  by (simp add: three_pages_def)

lemma fresh_getAccessToken:
  "storage_rejects env = (\<lambda>n. False) \<Longrightarrow> getTime env = 1600000000000 \<Longrightarrow>
   getAccessToken env False fresh_session =
     (Inr (Some ''a1''),
      fresh_session\<lparr>emitted := 1, trace := [GetPassword SERVICE REFRESH_TOKEN_ACCOUNT]\<rparr>)"
  by (simp add: all_defs session_defs)

lemma online_getAccessToken:
  "getAccessToken (env_online x) False fresh_session =
     (Inr (Some ''a1''),
      fresh_session\<lparr>emitted := 1, trace := [GetPassword SERVICE REFRESH_TOKEN_ACCOUNT]\<rparr>)"
  by (rule fresh_getAccessToken) (simp_all add: env_defs)

lemma single_getAccessToken:
  "getAccessToken (env_single x\<lparr>rp_get_openid := f\<rparr>) False fresh_session =
     (Inr (Some ''a1''),
      fresh_session\<lparr>emitted := 1, trace := [GetPassword SERVICE REFRESH_TOKEN_ACCOUNT]\<rparr>)"
  by (rule fresh_getAccessToken) (simp_all add: env_defs)

lemma single_fetch:
  "fetchAccounts (env_single x) bearer url [] s
     = Some (Inr [acct ''7''], called (HttpGet url bearer) s)"
  by (subst fetchAccounts.simps) (simp add: env_defs)

lemma single_fetch':
  "fetchAccounts (env_single x\<lparr>rp_get_openid := f\<rparr>) bearer url [] s
     = Some (Inr [acct ''7''], called (HttpGet url bearer) s)"
  by (subst fetchAccounts.simps) (simp add: env_defs)


lemma stale_select_cancel:
  "\<exists>t1 t2.
     getAccessToken (env_online 1600003600) False stale_session = (Inr (Some ''a2''), t1) \<and>
     accessToken t1 = Some ''a2'' \<and> expiration t1 = 1600003600 \<and>
     storedRefreshToken t1 = Some ''r2'' \<and>
     trace t1 = [GetPassword SERVICE REFRESH_TOKEN_ACCOUNT,
                 GetPassword SERVICE REFRESH_TOKEN_ACCOUNT,
                 HttpGet OPENID_URL None,
                 HttpPost token_url (RefreshForm (Some ''g0'') ''r1''),
                 SetPassword SERVICE REFRESH_TOKEN_ACCOUNT ''r2''] \<and>
     fetchAccounts (env_online 1600003600) (Some ''a2'') ACCOUNTS_URL [] t1
       = Some (Inr (concat (map resources three_pages)), t2) \<and>
     selectAccount (env_online 1600003600) (\<lambda>accounts. Resolved None) stale_session
       = Some (Inr False,
               emit_changed
                 (called (AccountCallback (map to_account (concat (map resources three_pages))))
                    t2))"
proof -
  let ?env = "env_online 1600003600"
  let ?all = "concat (map resources three_pages)"
  define t1 where "t1 = snd (getAccessToken ?env False stale_session)"
  have ga: "getAccessToken ?env False stale_session = (Inr (Some ''a2''), t1)"
    unfolding t1_def by (simp add: all_defs env_defs session_defs)
  have v: "accessToken t1 = Some ''a2''" "expiration t1 = 1600003600"
    "storedRefreshToken t1 = Some ''r2''"
    "trace t1 = [GetPassword SERVICE REFRESH_TOKEN_ACCOUNT,
                 GetPassword SERVICE REFRESH_TOKEN_ACCOUNT,
                 HttpGet OPENID_URL None,
                 HttpPost token_url (RefreshForm (Some ''g0'') ''r1''),
                 SetPassword SERVICE REFRESH_TOKEN_ACCOUNT ''r2'']"
    unfolding t1_def by (simp_all add: all_defs env_defs session_defs)
  have lst: "listing ?env (Some ''a2'') ACCOUNTS_URL (ticks t1) three_pages"
    by (rule three_pages_listing)
  from fetchAccounts_listing [OF lst, of "[]"]
  obtain t2 where
    fa: "fetchAccounts ?env (Some ''a2'') ACCOUNTS_URL [] t1 = Some (Inr ?all, t2)"
    by auto
  have len: "length ?all \<noteq> 1" by (simp add: three_pages_resources)
  have "chooseAccount ?env (\<lambda>accounts. Resolved None) ?all t2
          = (Inr False, called (AccountCallback (map to_account ?all)) t2)"
    by (simp add: chooseAccount_many [OF len])
  then have "selectAccount ?env (\<lambda>accounts. Resolved None) stale_session
          = Some (Inr False, emit_changed (called (AccountCallback (map to_account ?all)) t2))"
    by (simp add: selectAccount_fetched [OF ga fa])
  with ga v fa show ?thesis by blast
qed

text \<open>
  Claim C6, as the code has it. When the passcode callback yields no passcode (\<open>undefined\<close>
  or the empty string), \<open>loginWithSSO\<close> returns false, and whenever it returns false the
  access token, the expiry and both stores are as before the call. When the account chooser
  is asked (the list has not exactly one account) and yields no account, \<open>selectAccount\<close>
  returns false, and whenever it returns false the stored account id and email are as
  before the call, and the access token, the expiry and the secure store are as the call
  of \<open>getAccessToken\<close> at its start left them: as before the call when
  \<open>expiration - now\<close> was at least 60, and otherwise those of the refresh exchange made
  with the stored refresh token and account id (the access token and the expiry of the
  response in memory, the refresh token of the response stored). Neither path raises an
  error.
\<close>

theorem cancellation_keeps_session:
  "(getPasscodeEndpoint env s = (Inr endpoint, s1) \<and> passcode_cb endpoint = Resolved passcode \<and>
    \<not> truthy passcode \<longrightarrow>
      loginWithSSO env passcode_cb s
        = (Inr False, emit_changed (called (PasscodeCallback endpoint) s1))) \<and>
   (loginWithSSO env passcode_cb s = (Inr False, s') \<longrightarrow>
      accessToken s' = accessToken s \<and> expiration s' = expiration s \<and>
      globalState s' = globalState s \<and> secureStore s' = secureStore s) \<and>
   (getAccessToken env False s = (Inr bearer, t1) \<and>
    fetchAccounts env bearer ACCOUNTS_URL [] t1 = Some (Inr collected, t2) \<and>
    length collected \<noteq> 1 \<and> account_cb (map to_account collected) = Resolved None \<longrightarrow>
      selectAccount env account_cb s
        = Some (Inr False, emit_changed (called (AccountCallback (map to_account collected)) t2))) \<and>
   (selectAccount env account_cb s = Some (Inr False, s'') \<longrightarrow>
      storedAccount s'' = storedAccount s \<and> storedEmail s'' = storedEmail s \<and>
      globalState s'' = globalState s \<and>
      (\<exists>token u1. getAccessToken env False s = (Inr token, u1) \<and>
         accessToken s'' = accessToken u1 \<and> expiration s'' = expiration u1 \<and>
         secureStore s'' = secureStore u1) \<and>
      (60 \<le> expiration s - now env \<longrightarrow>
         accessToken s'' = accessToken s \<and> expiration s'' = expiration s \<and>
         secureStore s'' = secureStore s) \<and>
      (expiration s - now env < 60 \<longrightarrow>
         (\<exists>tokenEndpoint refreshToken response.
            storedRefreshToken s = Some refreshToken \<and>
            rp_post env (ticks s + 3) tokenEndpoint (RefreshForm (storedAccount s) refreshToken)
              = Resolved response \<and>
            starts_with_2 (statusCode response) \<and>
            accessToken s'' = access_token (body response) \<and>
            expiration s'' = expiration_body (body response) \<and>
            storedRefreshToken s'' = Some (refresh_token (body response)))))"
proof -
  have sso1: "loginWithSSO env passcode_cb s
                = (Inr False, emit_changed (called (PasscodeCallback endpoint) s1))"
    if "getPasscodeEndpoint env s = (Inr endpoint, s1)"
      "passcode_cb endpoint = Resolved passcode" "\<not> truthy passcode"
    using that by (simp add: loginWithSSO_eq)
  have sso2: "accessToken s' = accessToken s \<and> expiration s' = expiration s \<and>
      globalState s' = globalState s \<and> secureStore s' = secureStore s"
    if h: "loginWithSSO env passcode_cb s = (Inr False, s')"
  proof -
    from h obtain endpoint u1 where
      pe: "getPasscodeEndpoint env s = (Inr endpoint, u1)"
      and s': "s' = emit_changed (called (PasscodeCallback endpoint) u1)"
      by (auto simp: loginWithSSO_eq split: prod.splits sum.splits promise.splits if_splits)
    from getPasscodeEndpoint_frame [OF pe] s' show ?thesis by simp
  qed
  have sel1: "selectAccount env account_cb s
        = Some (Inr False, emit_changed (called (AccountCallback (map to_account collected)) t2))"
    if "getAccessToken env False s = (Inr bearer, t1)"
      "fetchAccounts env bearer ACCOUNTS_URL [] t1 = Some (Inr collected, t2)"
      "length collected \<noteq> 1" "account_cb (map to_account collected) = Resolved None"
    using that by (simp add: selectAccount_fetched chooseAccount_many)
  have sel2: "storedAccount s'' = storedAccount s \<and> storedEmail s'' = storedEmail s \<and>
      globalState s'' = globalState s \<and>
      (\<exists>token u1. getAccessToken env False s = (Inr token, u1) \<and>
         accessToken s'' = accessToken u1 \<and> expiration s'' = expiration u1 \<and>
         secureStore s'' = secureStore u1) \<and>
      (60 \<le> expiration s - now env \<longrightarrow>
         accessToken s'' = accessToken s \<and> expiration s'' = expiration s \<and>
         secureStore s'' = secureStore s) \<and>
      (expiration s - now env < 60 \<longrightarrow>
         (\<exists>tokenEndpoint refreshToken response.
            storedRefreshToken s = Some refreshToken \<and>
            rp_post env (ticks s + 3) tokenEndpoint (RefreshForm (storedAccount s) refreshToken)
              = Resolved response \<and>
            starts_with_2 (statusCode response) \<and>
            accessToken s'' = access_token (body response) \<and>
            expiration s'' = expiration_body (body response) \<and>
            storedRefreshToken s'' = Some (refresh_token (body response))))"
    if h: "selectAccount env account_cb s = Some (Inr False, s'')"
  proof -
    from selectAccount_false [OF h] obtain b u1 col u2 where
      ga: "getAccessToken env False s = (Inr b, u1)"
      and fa: "fetchAccounts env b ACCOUNTS_URL [] u1 = Some (Inr col, u2)"
      and s'': "s'' = emit_changed (called (AccountCallback (map to_account col)) u2)"
      by blast
    from fetchAccounts_frame [OF fa] s''
    have fr: "accessToken s'' = accessToken u1" "expiration s'' = expiration u1"
      "globalState s'' = globalState u1" "secureStore s'' = secureStore u1"
      by simp_all
    from getAccessToken_ok_frame [OF ga] fr
    have a: "storedAccount s'' = storedAccount s \<and> storedEmail s'' = storedEmail s \<and>
      globalState s'' = globalState s \<and>
      (60 \<le> expiration s - now env \<longrightarrow>
         accessToken s'' = accessToken s \<and> expiration s'' = expiration s \<and>
         secureStore s'' = secureStore s)"
      by (simp add: stored_defs)
    have b: "\<exists>token u1. getAccessToken env False s = (Inr token, u1) \<and>
         accessToken s'' = accessToken u1 \<and> expiration s'' = expiration u1 \<and>
         secureStore s'' = secureStore u1"
      using ga fr by blast
    have c: "\<exists>tokenEndpoint refreshToken response.
            storedRefreshToken s = Some refreshToken \<and>
            rp_post env (ticks s + 3) tokenEndpoint (RefreshForm (storedAccount s) refreshToken)
              = Resolved response \<and>
            starts_with_2 (statusCode response) \<and>
            accessToken s'' = access_token (body response) \<and>
            expiration s'' = expiration_body (body response) \<and>
            storedRefreshToken s'' = Some (refresh_token (body response))"
      if "expiration s - now env < 60"
      using getAccessToken_refreshed [OF ga that] fr by (simp add: stored_defs)
    from a b c show ?thesis by blast
  qed
  from sso1 sso2 sel1 sel2 show ?thesis by blast
qed

text \<open>
  The theorem at a session with an account selected. With a fresh token both cancellations
  return false and the session keeps its tokens, its account id and its email; with a
  token that has expired the cancelled \<open>selectAccount\<close> returns false, keeps the account id
  and the email, and leaves the tokens of the refresh.
\<close>

theorem cancellation_keeps_session_witness:
  "loginWithSSO (env_online 1600003600) (\<lambda>url. Resolved None) fresh_session
     = (Inr False,
        fresh_session\<lparr>emitted := 1, trace := [HttpGet OPENID_URL None, PasscodeCallback passcode_url]\<rparr>) \<and>
   (\<exists>s'. selectAccount (env_online 1600003600) (\<lambda>accounts. Resolved None) fresh_session
            = Some (Inr False, s') \<and>
         storedAccount s' = Some ''g0'' \<and> storedEmail s' = Some ''e0'' \<and>
         accessToken s' = Some ''a1'' \<and> expiration s' = 1600000900 \<and>
         storedRefreshToken s' = Some ''r1'') \<and>
   globalState (snd (loginWithSSO (env_online 1600003600) (\<lambda>url. Resolved None) fresh_session))
     = globalState fresh_session \<and>
   secureStore (snd (loginWithSSO (env_online 1600003600) (\<lambda>url. Resolved None) fresh_session))
     = secureStore fresh_session \<and>
   (\<exists>s'. selectAccount (env_online 1600003600) (\<lambda>accounts. Resolved None) stale_session
            = Some (Inr False, s') \<and>
         storedAccount s' = Some ''g0'' \<and> storedEmail s' = Some ''e0'' \<and>
         accessToken s' = Some ''a2'' \<and> expiration s' = 1600003600 \<and>
         storedRefreshToken s' = Some ''r2'')"
proof -
  let ?env = "env_online 1600003600"
  let ?s1 = "fresh_session\<lparr>trace := [HttpGet OPENID_URL None]\<rparr>"
  let ?t1 = "fresh_session\<lparr>emitted := 1, trace := [GetPassword SERVICE REFRESH_TOKEN_ACCOUNT]\<rparr>"
  let ?all = "concat (map resources three_pages)"
  have pe: "getPasscodeEndpoint ?env fresh_session = (Inr passcode_url, ?s1)"
    by (simp add: all_defs env_defs session_defs)
  have lst: "listing ?env (Some ''a1'') ACCOUNTS_URL (ticks ?t1) three_pages"
    by (rule three_pages_listing)
  from fetchAccounts_listing [OF lst, of "[]"]
  obtain t2 where fa: "fetchAccounts ?env (Some ''a1'') ACCOUNTS_URL [] ?t1 = Some (Inr ?all, t2)"
    by auto
  let ?s' = "emit_changed (called (AccountCallback (map to_account ?all)) t2)"
  note T = cancellation_keeps_session
         [where env = ?env and s = fresh_session and endpoint = "passcode_url" and ?s1.0 = ?s1
            and passcode_cb = "\<lambda>url. Resolved None" and passcode = None
            and bearer = "Some ''a1''" and ?t1.0 = ?t1 and collected = ?all and ?t2.0 = t2
            and account_cb = "\<lambda>accounts. Resolved None" and s'' = ?s'
            and s' = "emit_changed (called (PasscodeCallback passcode_url) ?s1)"]
  have sso: "loginWithSSO ?env (\<lambda>url. Resolved None) fresh_session
               = (Inr False, emit_changed (called (PasscodeCallback passcode_url) ?s1))"
    by (rule mp [OF T [THEN conjunct1]]) (simp add: pe truthy_def)
  have sel: "selectAccount ?env (\<lambda>accounts. Resolved None) fresh_session = Some (Inr False, ?s')"
  proof (rule mp [OF T [THEN conjunct2, THEN conjunct2, THEN conjunct1]], intro conjI)
    show "getAccessToken ?env False fresh_session = (Inr (Some ''a1''), ?t1)"
      by (rule online_getAccessToken)
    show "fetchAccounts ?env (Some ''a1'') ACCOUNTS_URL [] ?t1 = Some (Inr ?all, t2)"
      by (rule fa)
    show "length ?all \<noteq> 1"
      by (simp add: three_pages_resources)
    show "(\<lambda>accounts. Resolved None) (map to_account ?all) = Resolved None"
      by simp
  qed
  have fresh: "60 \<le> expiration fresh_session - now ?env"
    by (simp add: now_def env_defs session_defs)
  from mp [OF T [THEN conjunct2, THEN conjunct2, THEN conjunct2] sel] fresh
  have same: "storedAccount ?s' = storedAccount fresh_session"
    "storedEmail ?s' = storedEmail fresh_session"
    "accessToken ?s' = accessToken fresh_session"
    "expiration ?s' = expiration fresh_session"
    "secureStore ?s' = secureStore fresh_session"
    by blast+
  have vals: "storedAccount ?s' = Some ''g0''" "storedEmail ?s' = Some ''e0''"
    "accessToken ?s' = Some ''a1''" "expiration ?s' = 1600000900" "storedRefreshToken ?s' = Some ''r1''"
    unfolding same storedRefreshToken_def
    by (simp_all add: stored_defs session_defs)
  have "emit_changed (called (PasscodeCallback passcode_url) ?s1)
          = fresh_session\<lparr>emitted := 1, trace := [HttpGet OPENID_URL None, PasscodeCallback passcode_url]\<rparr>"
    by (simp add: cmd_defs session_defs)
  moreover from mp [OF T [THEN conjunct2, THEN conjunct1] sso] sso
  have "globalState (snd (loginWithSSO ?env (\<lambda>url. Resolved None) fresh_session))
          = globalState fresh_session \<and>
        secureStore (snd (loginWithSSO ?env (\<lambda>url. Resolved None) fresh_session))
          = secureStore fresh_session"
    by simp
  moreover have "\<exists>s'. selectAccount ?env (\<lambda>accounts. Resolved None) stale_session
            = Some (Inr False, s') \<and>
         storedAccount s' = Some ''g0'' \<and> storedEmail s' = Some ''e0'' \<and>
         accessToken s' = Some ''a2'' \<and> expiration s' = 1600003600 \<and>
         storedRefreshToken s' = Some ''r2''"
  proof -
    from stale_select_cancel obtain u1 u2 where
      ga: "getAccessToken ?env False stale_session = (Inr (Some ''a2''), u1)"
      and fa2: "fetchAccounts ?env (Some ''a2'') ACCOUNTS_URL [] u1 = Some (Inr ?all, u2)"
      by blast
    let ?u' = "emit_changed (called (AccountCallback (map to_account ?all)) u2)"
    note U = cancellation_keeps_session
         [where env = ?env and s = stale_session
            and bearer = "Some ''a2''" and ?t1.0 = u1 and collected = ?all and ?t2.0 = u2
            and account_cb = "\<lambda>accounts. Resolved None" and s'' = ?u']
    have sel2: "selectAccount ?env (\<lambda>accounts. Resolved None) stale_session = Some (Inr False, ?u')"
    proof (rule mp [OF U [THEN conjunct2, THEN conjunct2, THEN conjunct1]], intro conjI)
      show "getAccessToken ?env False stale_session = (Inr (Some ''a2''), u1)"
        by (rule ga)
      show "fetchAccounts ?env (Some ''a2'') ACCOUNTS_URL [] u1 = Some (Inr ?all, u2)"
        by (rule fa2)
      show "length ?all \<noteq> 1"
        by (simp add: three_pages_resources)
      show "(\<lambda>accounts. Resolved None) (map to_account ?all) = Resolved None"
        by simp
    qed
    have stale: "expiration stale_session - now ?env < 60"
      by (simp add: now_def env_defs session_defs)
    have post: "rp_post ?env n url frm = Resolved (token_ok 1600003600)" for n url frm
      by (simp add: env_defs)
    from mp [OF U [THEN conjunct2, THEN conjunct2, THEN conjunct2] sel2] stale
    have "storedAccount ?u' = storedAccount stale_session \<and>
          storedEmail ?u' = storedEmail stale_session \<and>
          (\<exists>tokenEndpoint refreshToken response.
            rp_post ?env (ticks stale_session + 3) tokenEndpoint
               (RefreshForm (storedAccount stale_session) refreshToken) = Resolved response \<and>
            accessToken ?u' = access_token (body response) \<and>
            expiration ?u' = expiration_body (body response) \<and>
            storedRefreshToken ?u' = Some (refresh_token (body response)))"
      by blast
    then have "storedAccount ?u' = Some ''g0'' \<and> storedEmail ?u' = Some ''e0'' \<and>
         accessToken ?u' = Some ''a2'' \<and> expiration ?u' = 1600003600 \<and>
         storedRefreshToken ?u' = Some ''r2''"
      unfolding post by (auto simp: token_ok_def stored_defs session_defs)
    with sel2 show ?thesis by blast
  qed
  ultimately show ?thesis using sso sel vals by metis
qed

text \<open>
  Claim C6 as the specification states it fails for \<open>selectAccount\<close> where the access token
  needs a refresh: the session holds no access token, the expiry 0 and the refresh token
  \<open>r1\<close>; the chooser is given the six accounts and yields none; \<open>selectAccount\<close> returns
  false, and the session then holds the access token \<open>a2\<close>, the expiry 1600003600 and the
  refresh token \<open>r2\<close>, from the exchange that \<open>getAccessToken\<close> made as the first five calls.
\<close>

theorem cancelled_selectAccount_counterexample:
  "accessToken stale_session = None \<and> expiration stale_session = 0 \<and>
   storedRefreshToken stale_session = Some ''r1'' \<and>
   (\<exists>s'. selectAccount (env_online 1600003600) (\<lambda>accounts. Resolved None) stale_session
            = Some (Inr False, s') \<and>
         accessToken s' = Some ''a2'' \<and> expiration s' = 1600003600 \<and>
         storedRefreshToken s' = Some ''r2'' \<and>
         take 5 (trace s') =
           [GetPassword SERVICE REFRESH_TOKEN_ACCOUNT,
            GetPassword SERVICE REFRESH_TOKEN_ACCOUNT,
            HttpGet OPENID_URL None,
            HttpPost token_url (RefreshForm (Some ''g0'') ''r1''),
            SetPassword SERVICE REFRESH_TOKEN_ACCOUNT ''r2''])"
proof -
  let ?env = "env_online 1600003600"
  let ?all = "concat (map resources three_pages)"
  from stale_select_cancel obtain t1 t2 where
    v: "accessToken t1 = Some ''a2''" "expiration t1 = 1600003600"
      "storedRefreshToken t1 = Some ''r2''"
      "trace t1 = [GetPassword SERVICE REFRESH_TOKEN_ACCOUNT,
                 GetPassword SERVICE REFRESH_TOKEN_ACCOUNT,
                 HttpGet OPENID_URL None,
                 HttpPost token_url (RefreshForm (Some ''g0'') ''r1''),
                 SetPassword SERVICE REFRESH_TOKEN_ACCOUNT ''r2'']"
    and fa: "fetchAccounts ?env (Some ''a2'') ACCOUNTS_URL [] t1 = Some (Inr ?all, t2)"
    and sel: "selectAccount ?env (\<lambda>accounts. Resolved None) stale_session
       = Some (Inr False, emit_changed (called (AccountCallback (map to_account ?all)) t2))"
    by blast
  from fetchAccounts_trace_aux [OF fa] obtain rest where
    tr: "trace t2 = trace t1 @ rest" by auto
  let ?s' = "emit_changed (called (AccountCallback (map to_account ?all)) t2)"
  from fetchAccounts_frame [OF fa] v tr
  have "accessToken ?s' = Some ''a2'' \<and> expiration ?s' = 1600003600 \<and>
        storedRefreshToken ?s' = Some ''r2'' \<and>
        take 5 (trace ?s') = trace t1"
    by (simp add: stored_defs)
  with sel v(4) have "\<exists>s'. selectAccount ?env (\<lambda>accounts. Resolved None) stale_session
            = Some (Inr False, s') \<and>
         accessToken s' = Some ''a2'' \<and> expiration s' = 1600003600 \<and>
         storedRefreshToken s' = Some ''r2'' \<and>
         take 5 (trace s') =
           [GetPassword SERVICE REFRESH_TOKEN_ACCOUNT,
            GetPassword SERVICE REFRESH_TOKEN_ACCOUNT,
            HttpGet OPENID_URL None,
            HttpPost token_url (RefreshForm (Some ''g0'') ''r1''),
            SetPassword SERVICE REFRESH_TOKEN_ACCOUNT ''r2'']"
    by simp
  then show ?thesis
    by (simp add: session_defs stored_defs)
qed

text \<open>
  Claim C7, as the code has it. When \<open>getAccessToken\<close> succeeds and the listing holds
  exactly one account, the outcome of \<open>selectAccount\<close> does not depend on the chooser,
  \<open>selectAccount\<close> returns, and none of the calls made since its start is a call of the
  chooser. It writes the id of the account and then its email. When the storage rejects
  the first write, it raises the storage error and the stored id and email are as before;
  when the storage rejects the second, it raises the storage error with the new id stored
  and the email as before. When the storage accepts both writes, the refresh exchange runs
  on the session that holds the new id and email. If the exchange succeeds, \<open>selectAccount\<close>
  returns true: the id and the email are stored, the form posted carries the new id, the
  tokens are those of the response, the calls made after the listing are the two writes
  and the four calls of the exchange, and \<open>accountSelected\<close> answers true exactly when the id
  is not empty. If the exchange fails, it began with the read of the refresh token, any
  form it posted carries the new id, and the forced logout runs: when the storage accepts
  its three deletes, \<open>selectAccount\<close> raises \<open>NotLoggedIn\<close>, the session is cleared and
  \<open>accountSelected\<close> answers false; when it rejects one, \<open>selectAccount\<close> raises the storage
  error, with no access token left in memory.
\<close>

theorem selectAccount_single_account:
  assumes "getAccessToken env False s = (Inr bearer, s1)"
      and "fetchAccounts env bearer ACCOUNTS_URL [] s1 = Some (Inr [only], s2)"
  shows "selectAccount env cb' s = selectAccount env cb s \<and>
    (\<exists>r s' rest. selectAccount env cb s = Some (r, s') \<and>
       trace s' = trace s @ rest \<and> filter is_chooser_call rest = []) \<and>
    (storage_rejects env (ticks s2) \<longrightarrow>
       (\<exists>s'. selectAccount env cb s = Some (Inl StorageError, s') \<and>
             storedAccount s' = storedAccount s \<and> storedEmail s' = storedEmail s \<and>
             trace s' = trace s2 @ [MementoUpdate ACCOUNT_KEY (Some (metadata_guid only))])) \<and>
    (\<not> storage_rejects env (ticks s2) \<and> storage_rejects env (Suc (ticks s2)) \<longrightarrow>
       (\<exists>s'. selectAccount env cb s = Some (Inl StorageError, s') \<and>
             storedAccount s' = Some (metadata_guid only) \<and> storedEmail s' = storedEmail s \<and>
             trace s' = trace s2 @ [MementoUpdate ACCOUNT_KEY (Some (metadata_guid only)),
                                    MementoUpdate EMAIL_KEY (Some (entity_owner_userid only))])) \<and>
    (accepts env (ticks s2) 2 \<longrightarrow>
       (case refreshExchange env (persisted (to_account only) s2) of
          (Inr u, s4) \<Rightarrow>
            selectAccount env cb s = Some (Inr True, emit_changed s4) \<and>
            storedAccount s4 = Some (metadata_guid only) \<and>
            storedEmail s4 = Some (entity_owner_userid only) \<and>
            fst (accountSelected (emit_changed s4)) = Inr (metadata_guid only \<noteq> []) \<and>
            (\<exists>endpoint token response.
               storedRefreshToken s2 = Some token \<and>
               rp_post env (ticks s2 + 4) endpoint (RefreshForm (Some (metadata_guid only)) token)
                 = Resolved response \<and>
               starts_with_2 (statusCode response) \<and>
               accessToken s4 = access_token (body response) \<and>
               expiration s4 = expiration_body (body response) \<and>
               storedRefreshToken s4 = Some (refresh_token (body response)) \<and>
               trace s4 = trace s2 @
                 [MementoUpdate ACCOUNT_KEY (Some (metadata_guid only)),
                  MementoUpdate EMAIL_KEY (Some (entity_owner_userid only)),
                  GetPassword SERVICE REFRESH_TOKEN_ACCOUNT,
                  HttpGet OPENID_URL None,
                  HttpPost endpoint (RefreshForm (Some (metadata_guid only)) token),
                  SetPassword SERVICE REFRESH_TOKEN_ACCOUNT (refresh_token (body response))])
        | (Inl e, s4) \<Rightarrow>
            (\<exists>rest. trace s4 = trace s2 @
                       MementoUpdate ACCOUNT_KEY (Some (metadata_guid only)) #
                       MementoUpdate EMAIL_KEY (Some (entity_owner_userid only)) #
                       GetPassword SERVICE REFRESH_TOKEN_ACCOUNT # rest \<and>
                    (\<forall>url frm. HttpPost url frm \<in> set rest \<longrightarrow>
                       (\<exists>token. frm = RefreshForm (Some (metadata_guid only)) token))) \<and>
            (accepts env (ticks s4) 3 \<longrightarrow>
               (\<exists>s'. selectAccount env cb s = Some (Inl NotLoggedIn, s') \<and>
                     accessToken s' = None \<and> expiration s' = 0 \<and>
                     storedAccount s' = None \<and> storedEmail s' = None \<and>
                     storedRefreshToken s' = None \<and>
                     fst (accountSelected s') = Inr False \<and>
                     trace s' = trace s4 @
                       [MementoUpdate ACCOUNT_KEY None, MementoUpdate EMAIL_KEY None,
                        DeletePassword SERVICE REFRESH_TOKEN_ACCOUNT])) \<and>
            (\<not> accepts env (ticks s4) 3 \<longrightarrow>
               (\<exists>s'. selectAccount env cb s = Some (Inl StorageError, s') \<and>
                     accessToken s' = None \<and> expiration s' = 0))))"
proof -
  let ?a = "to_account only"
  let ?s3 = "persisted ?a s2"
  have ga: "guid ?a = metadata_guid only" "email ?a = entity_owner_userid only"
    by (simp_all add: to_account_def)
  have sel: "selectAccount env c s
               = Some (fst (persistAccount env ?a s2), emit_changed (snd (persistAccount env ?a s2)))"
    for c
    using assms by (simp add: selectAccount_fetched chooseAccount_single)
  have same: "selectAccount env cb' s = selectAccount env cb s"
    by (simp add: sel)
  have gs: "globalState s2 = globalState s"
    using getAccessToken_ok_frame [OF assms(1)] fetchAccounts_frame [OF assms(2)] by simp
  have nochooser: "\<exists>r s' rest. selectAccount env cb s = Some (r, s') \<and>
       trace s' = trace s @ rest \<and> filter is_chooser_call rest = []"
  proof -
    from getAccessToken_trace [OF assms(1)] obtain rest1 where
      t1: "trace s1 = trace s @ rest1" "filter is_chooser_call rest1 = []" by blast
    from fetchAccounts_trace [OF assms(2)] obtain rest2 where
      t2: "trace s2 = trace s1 @ rest2" "filter is_chooser_call rest2 = []" by blast
    from persistAccount_trace [OF surjective_pairing, of env ?a s2] obtain rest3 where
      t3: "trace (snd (persistAccount env ?a s2)) = trace s2 @ rest3"
        "filter is_chooser_call rest3 = []" by blast
    have "trace (emit_changed (snd (persistAccount env ?a s2))) = trace s @ (rest1 @ rest2 @ rest3)"
      "filter is_chooser_call (rest1 @ rest2 @ rest3) = []"
      using t1 t2 t3 by simp_all
    with sel [of cb] show ?thesis by blast
  qed
  have rej1: "\<exists>s'. selectAccount env cb s = Some (Inl StorageError, s') \<and>
             storedAccount s' = storedAccount s \<and> storedEmail s' = storedEmail s \<and>
             trace s' = trace s2 @ [MementoUpdate ACCOUNT_KEY (Some (metadata_guid only))]"
    if "storage_rejects env (ticks s2)"
    using that gs by (simp add: sel persistAccount_eq ga stored_defs)
  have rej2: "\<exists>s'. selectAccount env cb s = Some (Inl StorageError, s') \<and>
             storedAccount s' = Some (metadata_guid only) \<and> storedEmail s' = storedEmail s \<and>
             trace s' = trace s2 @ [MementoUpdate ACCOUNT_KEY (Some (metadata_guid only)),
                                    MementoUpdate EMAIL_KEY (Some (entity_owner_userid only))]"
    if "\<not> storage_rejects env (ticks s2) \<and> storage_rejects env (Suc (ticks s2))"
    using that gs by (simp add: sel persistAccount_eq ga stored_defs)
  have acc: "(case refreshExchange env ?s3 of
          (Inr u, s4) \<Rightarrow>
            selectAccount env cb s = Some (Inr True, emit_changed s4) \<and>
            storedAccount s4 = Some (metadata_guid only) \<and>
            storedEmail s4 = Some (entity_owner_userid only) \<and>
            fst (accountSelected (emit_changed s4)) = Inr (metadata_guid only \<noteq> []) \<and>
            (\<exists>endpoint token response.
               storedRefreshToken s2 = Some token \<and>
               rp_post env (ticks s2 + 4) endpoint (RefreshForm (Some (metadata_guid only)) token)
                 = Resolved response \<and>
               starts_with_2 (statusCode response) \<and>
               accessToken s4 = access_token (body response) \<and>
               expiration s4 = expiration_body (body response) \<and>
               storedRefreshToken s4 = Some (refresh_token (body response)) \<and>
               trace s4 = trace s2 @
                 [MementoUpdate ACCOUNT_KEY (Some (metadata_guid only)),
                  MementoUpdate EMAIL_KEY (Some (entity_owner_userid only)),
                  GetPassword SERVICE REFRESH_TOKEN_ACCOUNT,
                  HttpGet OPENID_URL None,
                  HttpPost endpoint (RefreshForm (Some (metadata_guid only)) token),
                  SetPassword SERVICE REFRESH_TOKEN_ACCOUNT (refresh_token (body response))])
        | (Inl e, s4) \<Rightarrow>
            (\<exists>rest. trace s4 = trace s2 @
                       MementoUpdate ACCOUNT_KEY (Some (metadata_guid only)) #
                       MementoUpdate EMAIL_KEY (Some (entity_owner_userid only)) #
                       GetPassword SERVICE REFRESH_TOKEN_ACCOUNT # rest \<and>
                    (\<forall>url frm. HttpPost url frm \<in> set rest \<longrightarrow>
                       (\<exists>token. frm = RefreshForm (Some (metadata_guid only)) token))) \<and>
            (accepts env (ticks s4) 3 \<longrightarrow>
               (\<exists>s'. selectAccount env cb s = Some (Inl NotLoggedIn, s') \<and>
                     accessToken s' = None \<and> expiration s' = 0 \<and>
                     storedAccount s' = None \<and> storedEmail s' = None \<and>
                     storedRefreshToken s' = None \<and>
                     fst (accountSelected s') = Inr False \<and>
                     trace s' = trace s4 @
                       [MementoUpdate ACCOUNT_KEY None, MementoUpdate EMAIL_KEY None,
                        DeletePassword SERVICE REFRESH_TOKEN_ACCOUNT])) \<and>
            (\<not> accepts env (ticks s4) 3 \<longrightarrow>
               (\<exists>s'. selectAccount env cb s = Some (Inl StorageError, s') \<and>
                     accessToken s' = None \<and> expiration s' = 0)))"
    if a2: "accepts env (ticks s2) 2"
  proof -
    from a2 have pa: "persistAccount env ?a s2 =
        (case refreshTokens env ?s3 of
           (Inl e, s') \<Rightarrow> (Inl e, s')
         | (Inr u, s') \<Rightarrow> (Inr True, s'))"
      by (simp add: persistAccount_eq accepts_2)
    obtain x s4 where re: "refreshExchange env ?s3 = (x, s4)"
      by (cases "refreshExchange env ?s3")
    show ?thesis
    proof (cases x)
      case (Inr u)
      with re have ok: "refreshExchange env ?s3 = (Inr u, s4)" by simp
      then have rt: "refreshTokens env ?s3 = (Inr u, s4)"
        by (simp add: refreshTokens_eq)
      have s: "selectAccount env cb s = Some (Inr True, emit_changed s4)"
        by (simp add: sel pa rt)
      from refreshExchange_ok [OF ok] obtain endpoint token response where
        f: "storedRefreshToken ?s3 = Some token"
          "rp_post env (Suc (Suc (ticks ?s3))) endpoint (RefreshForm (storedAccount ?s3) token)
             = Resolved response"
          "starts_with_2 (statusCode response)"
          "accessToken s4 = access_token (body response)"
          "expiration s4 = expiration_body (body response)"
          "globalState s4 = globalState ?s3"
          "storedRefreshToken s4 = Some (refresh_token (body response))"
          "trace s4 = trace ?s3 @
             [GetPassword SERVICE REFRESH_TOKEN_ACCOUNT,
              HttpGet OPENID_URL None,
              HttpPost endpoint (RefreshForm (storedAccount ?s3) token),
              SetPassword SERVICE REFRESH_TOKEN_ACCOUNT (refresh_token (body response))]"
        by blast
      from f(6) have st: "storedAccount s4 = Some (metadata_guid only)"
        "storedEmail s4 = Some (entity_owner_userid only)"
        using persisted_obs(5,6) [of ?a s2] by (simp_all add: stored_defs ga)
      have k: "Suc (Suc (ticks ?s3)) = ticks s2 + 4" by simp
      have "\<exists>endpoint token response.
               storedRefreshToken s2 = Some token \<and>
               rp_post env (ticks s2 + 4) endpoint (RefreshForm (Some (metadata_guid only)) token)
                 = Resolved response \<and>
               starts_with_2 (statusCode response) \<and>
               accessToken s4 = access_token (body response) \<and>
               expiration s4 = expiration_body (body response) \<and>
               storedRefreshToken s4 = Some (refresh_token (body response)) \<and>
               trace s4 = trace s2 @
                 [MementoUpdate ACCOUNT_KEY (Some (metadata_guid only)),
                  MementoUpdate EMAIL_KEY (Some (entity_owner_userid only)),
                  GetPassword SERVICE REFRESH_TOKEN_ACCOUNT,
                  HttpGet OPENID_URL None,
                  HttpPost endpoint (RefreshForm (Some (metadata_guid only)) token),
                  SetPassword SERVICE REFRESH_TOKEN_ACCOUNT (refresh_token (body response))]"
        using f(1,3,4,5,7) f(2) [unfolded k] f(8) by (auto simp: ga)
      with s st show ?thesis
        by (simp add: ok accountSelected_eq truthy_def)
    next
      case (Inl e)
      with re have bad: "refreshExchange env ?s3 = (Inl e, s4)" by simp
      then have rt: "refreshTokens env ?s3 =
          (case logout env s4 of
             (Inl e', s'') \<Rightarrow> (Inl e', s'')
           | (Inr _, s'') \<Rightarrow> (Inl NotLoggedIn, s''))"
        by (simp add: refreshTokens_eq)
      from refreshExchange_bound [OF bad] obtain rest where
        b: "trace s4 = trace ?s3 @ GetPassword SERVICE REFRESH_TOKEN_ACCOUNT # rest"
          "\<forall>url frm. HttpPost url frm \<in> set rest \<longrightarrow>
              (\<exists>token. frm = RefreshForm (storedAccount ?s3) token)"
        by blast
      have p1: "\<exists>rest. trace s4 = trace s2 @
                       MementoUpdate ACCOUNT_KEY (Some (metadata_guid only)) #
                       MementoUpdate EMAIL_KEY (Some (entity_owner_userid only)) #
                       GetPassword SERVICE REFRESH_TOKEN_ACCOUNT # rest \<and>
                    (\<forall>url frm. HttpPost url frm \<in> set rest \<longrightarrow>
                       (\<exists>token. frm = RefreshForm (Some (metadata_guid only)) token))"
        using b by (auto simp: ga)
      have p2: "\<exists>s'. selectAccount env cb s = Some (Inl NotLoggedIn, s') \<and>
                     accessToken s' = None \<and> expiration s' = 0 \<and>
                     storedAccount s' = None \<and> storedEmail s' = None \<and>
                     storedRefreshToken s' = None \<and>
                     fst (accountSelected s') = Inr False \<and>
                     trace s' = trace s4 @
                       [MementoUpdate ACCOUNT_KEY None, MementoUpdate EMAIL_KEY None,
                        DeletePassword SERVICE REFRESH_TOKEN_ACCOUNT]"
        if "accepts env (ticks s4) 3"
        by (simp add: sel pa rt logout_accepted [OF that] accountSelected_eq truthy_def stored_defs)
      have p3: "\<exists>s'. selectAccount env cb s = Some (Inl StorageError, s') \<and>
                     accessToken s' = None \<and> expiration s' = 0"
        if "\<not> accepts env (ticks s4) 3"
        using logout_always [OF surjective_pairing, of env s4]
          logout_rejected [OF that surjective_pairing]
        by (auto simp: sel pa rt split: prod.splits sum.splits)
      from p1 p2 p3 show ?thesis by (simp add: bad)
    qed
  qed
  from same nochooser rej1 rej2 acc show ?thesis by blast
qed

text \<open>
  The theorem where the account service knows one account: once with a provider that
  answers the forced refresh, once with a discovery request that is rejected.
\<close>

theorem selectAccount_single_account_witness:
  "selectAccount (env_single 1600003600) (\<lambda>accounts. Rejected) fresh_session
     = selectAccount (env_single 1600003600) (\<lambda>accounts. Resolved None) fresh_session \<and>
   (\<exists>s'. selectAccount (env_single 1600003600) (\<lambda>accounts. Resolved None) fresh_session
            = Some (Inr True, s') \<and>
         storedAccount s' = Some ''7'' \<and> storedEmail s' = Some ''e7'' \<and>
         fst (accountSelected s') = Inr True \<and>
         accessToken s' = Some ''a2'' \<and> storedRefreshToken s' = Some ''r2'') \<and>
   (\<exists>s'. selectAccount (env_single 1600003600\<lparr>rp_get_openid := (\<lambda>n url. Rejected)\<rparr>)
            (\<lambda>accounts. Resolved None) fresh_session
            = Some (Inl NotLoggedIn, s') \<and>
         storedAccount s' = None \<and> storedRefreshToken s' = None \<and>
         fst (accountSelected s') = Inr False)"
proof -
  let ?env = "env_single 1600003600"
  let ?bad = "env_single 1600003600\<lparr>rp_get_openid := (\<lambda>n url. Rejected)\<rparr>"
  let ?s1 = "fresh_session\<lparr>emitted := 1, trace := [GetPassword SERVICE REFRESH_TOKEN_ACCOUNT]\<rparr>"
  let ?s2 = "called (HttpGet ACCOUNTS_URL (Some ''a1'')) ?s1"
  let ?s3 = "persisted (to_account (acct ''7'')) ?s2"
  have ga: "getAccessToken ?env False fresh_session = (Inr (Some ''a1''), ?s1)"
    by (rule fresh_getAccessToken) (simp_all add: env_defs)
  have fa: "fetchAccounts ?env (Some ''a1'') ACCOUNTS_URL [] ?s1 = Some (Inr [acct ''7''], ?s2)"
    by (rule single_fetch)
  have ga': "getAccessToken ?bad False fresh_session = (Inr (Some ''a1''), ?s1)"
    by (rule single_getAccessToken)
  have fa': "fetchAccounts ?bad (Some ''a1'') ACCOUNTS_URL [] ?s1 = Some (Inr [acct ''7''], ?s2)"
    by (rule single_fetch')
  have a2: "accepts ?env (ticks ?s2) 2" "accepts ?bad (ticks ?s2) 2"
    by (simp_all add: accepts_2 env_defs)
  have g: "metadata_guid (acct ''7'') = ''7''" "entity_owner_userid (acct ''7'') = ''e7''"
    by (simp_all add: acct_def)
  define s4 where "s4 = snd (refreshExchange ?env ?s3)"
  have re: "refreshExchange ?env ?s3 = (Inr (), s4)"
    unfolding s4_def
    by (simp add: all_defs env_defs session_defs persisted_def to_account_def acct_def)
  have v4: "accessToken s4 = Some ''a2''" "storedRefreshToken s4 = Some ''r2''"
    unfolding s4_def
    by (simp_all add: all_defs env_defs session_defs persisted_def to_account_def acct_def)
  define u4 where "u4 = snd (refreshExchange ?bad ?s3)"
  have re': "refreshExchange ?bad ?s3 = (Inl TransportError, u4)"
    unfolding u4_def
    by (simp add: all_defs env_defs session_defs persisted_def to_account_def acct_def)
  have a3: "accepts ?bad (ticks u4) 3"
    by (simp add: accepts_3 env_defs)
  note T = selectAccount_single_account
             [OF ga fa, where cb' = "\<lambda>accounts. Rejected" and cb = "\<lambda>accounts. Resolved None"]
  note U = selectAccount_single_account
             [OF ga' fa', where cb' = "\<lambda>accounts. Rejected" and cb = "\<lambda>accounts. Resolved None"]
  from mp [OF T [THEN conjunct2, THEN conjunct2, THEN conjunct2, THEN conjunct2] a2(1)]
  have ok: "selectAccount ?env (\<lambda>accounts. Resolved None) fresh_session
              = Some (Inr True, emit_changed s4) \<and>
            storedAccount s4 = Some ''7'' \<and> storedEmail s4 = Some ''e7'' \<and>
            fst (accountSelected (emit_changed s4)) = Inr True"
    unfolding re g by simp
  from mp [OF U [THEN conjunct2, THEN conjunct2, THEN conjunct2, THEN conjunct2] a2(2)] a3
  have failed: "\<exists>s'. selectAccount ?bad (\<lambda>accounts. Resolved None) fresh_session
                        = Some (Inl NotLoggedIn, s') \<and>
                      storedAccount s' = None \<and> storedRefreshToken s' = None \<and>
                      fst (accountSelected s') = Inr False"
    unfolding re' by auto
  from ok v4 have "\<exists>s'. selectAccount ?env (\<lambda>accounts. Resolved None) fresh_session
            = Some (Inr True, s') \<and>
         storedAccount s' = Some ''7'' \<and> storedEmail s' = Some ''e7'' \<and>
         fst (accountSelected s') = Inr True \<and>
         accessToken s' = Some ''a2'' \<and> storedRefreshToken s' = Some ''r2''"
    by simp
  with T [THEN conjunct1] failed show ?thesis by blast
qed

text \<open>
  Claim C7 as the specification states it fails where the forced refresh fails: the token
  is fresh, so \<open>getAccessToken\<close> makes no exchange; the listing holds the one account
  \<open>7\<close>, which is stored; the discovery request of the forced refresh is rejected, the
  forced logout deletes the account again, \<open>selectAccount\<close> raises \<open>NotLoggedIn\<close> and
  \<open>accountSelected\<close> answers false.
\<close>

theorem forced_refresh_failure_counterexample:
  "fetchAccounts (env_single 1600003600\<lparr>rp_get_openid := (\<lambda>n url. Rejected)\<rparr>) (Some ''a1'') ACCOUNTS_URL []
       (fresh_session\<lparr>emitted := 1, trace := [GetPassword SERVICE REFRESH_TOKEN_ACCOUNT]\<rparr>)
     = Some (Inr [acct ''7''],
             called (HttpGet ACCOUNTS_URL (Some ''a1''))
               (fresh_session\<lparr>emitted := 1,
                  trace := [GetPassword SERVICE REFRESH_TOKEN_ACCOUNT]\<rparr>)) \<and>
   (\<exists>s'. selectAccount (env_single 1600003600\<lparr>rp_get_openid := (\<lambda>n url. Rejected)\<rparr>)
            (\<lambda>accounts. Resolved None) fresh_session
            = Some (Inl NotLoggedIn, s') \<and>
         storedAccount s' = None \<and>
         fst (accountSelected s') = Inr False \<and>
         trace s' =
           [GetPassword SERVICE REFRESH_TOKEN_ACCOUNT, HttpGet ACCOUNTS_URL (Some ''a1''),
            MementoUpdate ACCOUNT_KEY (Some ''7''), MementoUpdate EMAIL_KEY (Some ''e7''),
            GetPassword SERVICE REFRESH_TOKEN_ACCOUNT, HttpGet OPENID_URL None,
            MementoUpdate ACCOUNT_KEY None, MementoUpdate EMAIL_KEY None,
            DeletePassword SERVICE REFRESH_TOKEN_ACCOUNT])"
proof -
  let ?env = "env_single 1600003600\<lparr>rp_get_openid := (\<lambda>n url. Rejected)\<rparr>"
  let ?s1 = "fresh_session\<lparr>emitted := 1, trace := [GetPassword SERVICE REFRESH_TOKEN_ACCOUNT]\<rparr>"
  let ?s2 = "called (HttpGet ACCOUNTS_URL (Some ''a1'')) ?s1"
  have ga: "getAccessToken ?env False fresh_session = (Inr (Some ''a1''), ?s1)"
    by (rule single_getAccessToken)
  have fa: "fetchAccounts ?env (Some ''a1'') ACCOUNTS_URL [] ?s1 = Some (Inr [acct ''7''], ?s2)"
    by (rule single_fetch')
  obtain r u where pa: "persistAccount ?env (to_account (acct ''7'')) ?s2 = (r, u)"
    by (cases "persistAccount ?env (to_account (acct ''7'')) ?s2")
  have v: "r = Inl NotLoggedIn" "storedAccount u = None"
    "trace u =
           [GetPassword SERVICE REFRESH_TOKEN_ACCOUNT, HttpGet ACCOUNTS_URL (Some ''a1''),
            MementoUpdate ACCOUNT_KEY (Some ''7''), MementoUpdate EMAIL_KEY (Some ''e7''),
            GetPassword SERVICE REFRESH_TOKEN_ACCOUNT, HttpGet OPENID_URL None,
            MementoUpdate ACCOUNT_KEY None, MementoUpdate EMAIL_KEY None,
            DeletePassword SERVICE REFRESH_TOKEN_ACCOUNT]"
    using pa [symmetric]
    by (simp_all add: persistAccount_def all_defs env_defs session_defs to_account_def acct_def)
  have sel: "selectAccount ?env (\<lambda>accounts. Resolved None) fresh_session
               = Some (Inl NotLoggedIn, emit_changed u)"
    using pa v(1) by (simp add: selectAccount_fetched [OF ga fa] chooseAccount_single)
  have "fst (accountSelected (emit_changed u)) = Inr False"
    using v(2) by (simp add: accountSelected_eq truthy_def)
  with sel v fa show ?thesis by simp
qed

text \<open>
  Claim C8. When \<open>getAccessToken\<close> succeeds and the account service presents \<open>pages\<close> as one
  listing, the loop returns, after one request per page, and what it has collected is the
  resources of all the pages in page order. If these are not exactly one account, the call
  made next is the chooser's, with the accounts of all these resources in the same order,
  and no other call of the chooser follows.
\<close>

theorem selectAccount_pagination:
  assumes "getAccessToken env False s = (Inr bearer, s1)"
      and "listing env bearer ACCOUNTS_URL (ticks s1) pages"
  shows "\<exists>s2. fetchAccounts env bearer ACCOUNTS_URL [] s1
                 = Some (Inr (concat (map resources pages)), s2) \<and>
          ticks s2 = ticks s1 + length pages \<and>
          (length (concat (map resources pages)) \<noteq> 1 \<longrightarrow>
             (\<exists>r s' rest.
                selectAccount env cb s = Some (r, s') \<and>
                trace s' = trace s2 @
                  AccountCallback (map to_account (concat (map resources pages))) # rest \<and>
                filter is_chooser_call rest = []))"
proof -
  let ?all = "concat (map resources pages)"
  from fetchAccounts_listing [OF assms(2), of "[]"] obtain s2 where
    fa: "fetchAccounts env bearer ACCOUNTS_URL [] s1 = Some (Inr ?all, s2)"
    and k: "ticks s2 = ticks s1 + length pages"
    by auto
  have "\<exists>r s' rest.
          selectAccount env cb s = Some (r, s') \<and>
          trace s' = trace s2 @ AccountCallback (map to_account ?all) # rest \<and>
          filter is_chooser_call rest = []"
    if many: "length ?all \<noteq> 1"
  proof -
    let ?s3 = "called (AccountCallback (map to_account ?all)) s2"
    obtain r u where ca: "chooseAccount env cb ?all s2 = (r, u)"
      by (cases "chooseAccount env cb ?all s2")
    have sel: "selectAccount env cb s = Some (r, emit_changed u)"
      using assms(1) fa ca by (simp add: selectAccount_fetched)
    have "\<exists>rest. trace u = trace ?s3 @ rest \<and> filter is_chooser_call rest = []"
    proof (cases "cb (map to_account ?all)")
      case Rejected
      with ca many show ?thesis by (auto simp: chooseAccount_many)
    next
      case (Resolved choice)
      show ?thesis
      proof (cases choice)
        case None
        with Resolved ca many show ?thesis by (auto simp: chooseAccount_many)
      next
        case (Some selected)
        with Resolved ca many have "persistAccount env selected ?s3 = (r, u)"
          by (simp add: chooseAccount_many)
        from persistAccount_cases [OF this] show ?thesis by blast
      qed
    qed
    then obtain rest where "trace u = trace ?s3 @ rest" "filter is_chooser_call rest = []"
      by blast
    with sel show ?thesis by simp
  qed
  with fa k show ?thesis by blast
qed

text \<open>
  The theorem at three pages of two accounts each: the chooser is given the six accounts in
  page order.
\<close>

theorem selectAccount_pagination_witness:
  "\<exists>s2 r s' rest.
     fetchAccounts (env_online 1600003600) (Some ''a1'') ACCOUNTS_URL []
         (fresh_session\<lparr>emitted := 1, trace := [GetPassword SERVICE REFRESH_TOKEN_ACCOUNT]\<rparr>)
       = Some (Inr [acct ''1'', acct ''2'', acct ''3'', acct ''4'', acct ''5'', acct ''6''], s2) \<and>
     ticks s2 = 4 \<and>
     selectAccount (env_online 1600003600) (\<lambda>accounts. Resolved None) fresh_session = Some (r, s') \<and>
     trace s' = trace s2 @
       AccountCallback
         (map to_account [acct ''1'', acct ''2'', acct ''3'', acct ''4'', acct ''5'', acct ''6''])
       # rest"
proof -
  have ga: "getAccessToken (env_online 1600003600) False fresh_session =
     (Inr (Some ''a1''),
      fresh_session\<lparr>emitted := 1, trace := [GetPassword SERVICE REFRESH_TOKEN_ACCOUNT]\<rparr>)"
    by (rule fresh_getAccessToken) (simp_all add: env_defs)
  have k: "ticks (fresh_session\<lparr>emitted := 1, trace := [GetPassword SERVICE REFRESH_TOKEN_ACCOUNT]\<rparr>) = 1"
    "length three_pages = 3"
    by (simp_all add: ticks_def three_pages_def)
  from selectAccount_pagination [OF ga three_pages_listing, of "\<lambda>accounts. Resolved None"]
  show ?thesis
    unfolding three_pages_resources k by fastforce
qed

section \<open>Change notifications\<close>












end
